theory Spec2Isabelle
  imports Main
begin

section \<open>The lightbox selectors (ts/state/selectors/lightbox.ts)\<close>

text \<open>
  \<^verbatim>\<open>LightboxStateType\<close> is a union tagged by \<^verbatim>\<open>isShowingLightbox\<close>: the fields
  \<^verbatim>\<open>isViewOnce\<close>, \<^verbatim>\<open>media\<close> and \<^verbatim>\<open>selectedAttachmentPath\<close> exist only when the
  lightbox is showing. An attachment's \<^verbatim>\<open>path\<close> and the selected path are both
  \<^verbatim>\<open>string | undefined\<close>, hence options; \<^verbatim>\<open>===\<close> on them is equality of options
  (\<^verbatim>\<open>undefined === undefined\<close> holds).
\<close>

record attachment_type =
  path :: "string option"

record media_item =
  attachment :: attachment_type

datatype lightbox_state =
    NotShowing
  | Showing (isViewOnce: bool) (media: "media_item list") (selectedAttachmentPath: "string option")

record state_type =
  lightbox :: lightbox_state

definition getLightboxState :: "state_type \<Rightarrow> lightbox_state" where
  "getLightboxState st = lightbox st"

fun isShowingLightbox :: "lightbox_state \<Rightarrow> bool" where
  "isShowingLightbox NotShowing = False"
| "isShowingLightbox (Showing v m s) = True"

text \<open>
  \<^verbatim>\<open>Array.prototype.findIndex\<close>: the index of the first element that satisfies the
  predicate, scanning from index 0 upwards, and \<open>-1\<close> when there is none.
\<close>

fun findIndexFrom :: "('a \<Rightarrow> bool) \<Rightarrow> int \<Rightarrow> 'a list \<Rightarrow> int" where
  "findIndexFrom p k [] = - 1"
| "findIndexFrom p k (x # xs) = (if p x then k else findIndexFrom p (k + 1) xs)"

definition findIndex :: "('a \<Rightarrow> bool) \<Rightarrow> 'a list \<Rightarrow> int" where
  "findIndex p xs = findIndexFrom p 0 xs"

text \<open>
  \<^verbatim>\<open>createSelector(getLightboxState, f)\<close> is \<open>f\<close> after \<open>getLightboxState\<close>
  (memoised, which a pure function does not show).
\<close>

definition shouldShowLightbox :: "state_type \<Rightarrow> bool" where
  "shouldShowLightbox st = isShowingLightbox (getLightboxState st)"

definition getIsViewOnce :: "state_type \<Rightarrow> bool" where
  "getIsViewOnce st =
     (case getLightboxState st of NotShowing \<Rightarrow> False | Showing v m s \<Rightarrow> v)"

definition getSelectedIndex :: "state_type \<Rightarrow> int" where
  "getSelectedIndex st =
     (case getLightboxState st of
        NotShowing \<Rightarrow> 0
      | Showing v m sel \<Rightarrow>
          (let index = findIndex (\<lambda>item. path (attachment item) = sel) m
           in if index > 0 then index else 0))"

definition getMedia :: "state_type \<Rightarrow> media_item list" where
  "getMedia st =
     (case getLightboxState st of NotShowing \<Rightarrow> [] | Showing v m s \<Rightarrow> m)"

text \<open>
  What the claim calls "the matching item": the first item of the showing lightbox's
  media whose attachment path is the selected one, sits at position \<open>i\<close>.
\<close>

definition firstMatchAt :: "lightbox_state \<Rightarrow> nat \<Rightarrow> bool" where
  "firstMatchAt s i =
     (case s of
        NotShowing \<Rightarrow> False
      | Showing v m sel \<Rightarrow>
          i < length m \<and> path (attachment (m ! i)) = sel \<and>
          (\<forall>j < i. path (attachment (m ! j)) \<noteq> sel))"

definition noMatch :: "lightbox_state \<Rightarrow> bool" where
  "noMatch s =
     (case s of
        NotShowing \<Rightarrow> True
      | Showing v m sel \<Rightarrow> (\<forall>item \<in> set m. path (attachment item) \<noteq> sel))"

text \<open>Example states: a closed lightbox, and an open one with three media items.\<close>

definition st_closed :: state_type where
  "st_closed = \<lparr> lightbox = NotShowing \<rparr>"

definition ex_item :: "string \<Rightarrow> media_item" where
  "ex_item p = \<lparr> attachment = \<lparr> path = Some p \<rparr> \<rparr>"

definition st_open :: "string \<Rightarrow> state_type" where
  "st_open sel = \<lparr> lightbox = Showing False [ex_item ''a.jpg'', ex_item ''b.jpg'', ex_item ''c.jpg''] (Some sel) \<rparr>"

section \<open>The groups-in-common panel (ConversationDetailsGroups.tsx)\<close>

text \<open>
  The component renders a panel section: a title that carries the number of groups, the
  "add to group" row, one row per shown group and, possibly, the "show all" row. The
  rendered element is modelled by the list of its rows, in order. \<open>showAllGroups\<close>
  is the component's \<^verbatim>\<open>useState\<close> cell: \<^verbatim>\<open>false\<close> at first, set to \<^verbatim>\<open>true\<close> only by a
  click on the "show all" row.
\<close>

datatype 'g panel_row = AddToGroupRow | GroupRow 'g | ShowAllRow

record 'g panel_section =
  title_number :: int
  panel_rows :: "'g panel_row list"

text \<open>\<^verbatim>\<open>Array.prototype.slice(begin, end)\<close>, negative indices counting from the end.\<close>

definition slice :: "int \<Rightarrow> int \<Rightarrow> 'a list \<Rightarrow> 'a list" where
  "slice b e xs =
     (let n = int (length xs);
          k = (if b < 0 then max (n + b) 0 else min b n);
          f = (if e < 0 then max (n + e) 0 else min e n)
      in take (nat (f - k)) (drop (nat k) xs))"

definition ConversationDetailsGroups :: "bool \<Rightarrow> 'g list \<Rightarrow> 'g panel_section" where
  "ConversationDetailsGroups showAllGroups groupsInCommon =
     (let maxShownGroupCount = 5;
          isMoreThanMaxShown = int (length groupsInCommon) - maxShownGroupCount > 1;
          groupsToShow =
            (if showAllGroups then int (length groupsInCommon) else maxShownGroupCount)
      in \<lparr> title_number = int (length groupsInCommon),
           panel_rows =
             [AddToGroupRow] @
             map GroupRow (slice 0 groupsToShow groupsInCommon) @
             (if \<not> showAllGroups \<and> isMoreThanMaxShown then [ShowAllRow] else []) \<rparr>)"

text \<open>The click handler of the "show all" row: \<^verbatim>\<open>setShowAllGroups(true)\<close>.\<close>

definition clickShowAll :: "bool \<Rightarrow> bool" where
  "clickShowAll showAllGroups = True"

fun shownGroups :: "'g panel_row list \<Rightarrow> 'g list" where
  "shownGroups [] = []"
| "shownGroups (GroupRow g # rs) = g # shownGroups rs"
| "shownGroups (r # rs) = shownGroups rs"

text \<open>
  The values \<open>showAllGroups\<close> can take for a given list of groups: \<^verbatim>\<open>false\<close> at the first
  render, and what a click on a rendered "show all" row makes of a value already reached.
\<close>

inductive reachableShowAll :: "'g list \<Rightarrow> bool \<Rightarrow> bool" for groupsInCommon :: "'g list" where
  initial: "reachableShowAll groupsInCommon False"
| click: "reachableShowAll groupsInCommon s \<Longrightarrow>
          ShowAllRow \<in> set (panel_rows (ConversationDetailsGroups s groupsInCommon)) \<Longrightarrow>
          reachableShowAll groupsInCommon (clickShowAll s)"

definition six_groups :: "string list" where
  "six_groups = [''g1'', ''g2'', ''g3'', ''g4'', ''g5'', ''g6'']"

section \<open>The pending reactions (ts/messageModifiers/Reactions.ts)\<close>

subsection \<open>Data\<close>

text \<open>
  A \<^verbatim>\<open>ReactionModel\<close> is a Backbone model: an object with an identity (Backbone's
  \<^verbatim>\<open>cid\<close>) and attributes. HOL values have no identity, so the \<^verbatim>\<open>cid\<close> is a field.
\<close>

record reaction =
  cid :: nat
  emoji :: string
  fromId :: string
  targetAuthorUuid :: string
  targetTimestamp :: int
  timestamp :: int

record story_reaction =
  sr_emoji :: string
  sr_targetAuthorUuid :: string
  sr_targetTimestamp :: int

text \<open>
  The attributes of a message that this module reads or writes. A \<^verbatim>\<open>MessageModel\<close> is
  represented by its attributes; \<open>msg_reactions\<close> is the message's own reaction list
  (sender id and emoji), which only \<^verbatim>\<open>handleReaction\<close> touches.
\<close>

record message =
  msg_id :: string
  msg_type :: string
  sent_at :: int
  conversationId :: string
  sourceUuid :: "string option"
  expireTimer :: "int option"
  storyId :: "string option"
  storyReaction :: "story_reaction option"
  msg_reactions :: "(string \<times> string) list"

record conversation =
  conv_id :: string
  conv_type :: string
  conv_expireTimer :: "int option"

datatype error = Error string

text \<open>How a promise settles.\<close>

datatype settled = Resolved | Rejected error

text \<open>
  Every call that leaves the module (the \<^verbatim>\<open>window\<close> services, the log, methods of
  conversation and message models) is recorded, in order, with its arguments.
\<close>

datatype event =
    LogInfo string
  | LogError string error
  | LookupOrCreate string string
  | ControllerGet string
  | GetMessagesBySentAt int
  | GetConversationForTargetMessage string int
  | QueueJob conversation string
  | Register string
  | GetCheckedUuid
  | SaveMessage message string bool
  | HydrateStoryContext string string
  | AddSingleMessage string message
  | HandleReaction string reaction

text \<open>
  The state one invocation works on: the models held by the \<^verbatim>\<open>Reactions\<close> collection
  (the singleton's \<^verbatim>\<open>this\<close>), the state \<open>collab\<close> of the collaborators (message store,
  conversation directory, in-memory models), of a type the module does not look into,
  and the calls made so far.
\<close>

record 'x world =
  reactions :: "reaction list"
  collab :: 'x
  trace :: "event list"

text \<open>
  The collaborators, none of which is in the module. Lookups read the collaborators'
  state; \<^verbatim>\<open>saveMessage\<close>, \<^verbatim>\<open>addSingleMessage\<close> and \<^verbatim>\<open>handleReaction\<close> change it;
  \<^verbatim>\<open>hydrateStoryContext\<close> reads it and changes only the generated message. Four of them
  may throw or reject: \<^verbatim>\<open>getCheckedUuid\<close> and \<^verbatim>\<open>hydrateStoryContext\<close> (\<open>Inl e\<close> instead of
  their result), \<^verbatim>\<open>saveMessage\<close> and \<^verbatim>\<open>handleReaction\<close> (\<open>Some e\<close>, together with the
  state they leave behind).

  One invocation is followed from its call to its end. \<open>whileQueued c\<close> is what happens
  to the collection and to the collaborators between the moment a job is put on the queue
  of conversation \<open>c\<close> and the moment it starts: the jobs queued before it, and any other
  task that runs meanwhile (a message arriving, \<^verbatim>\<open>forMessage\<close> claiming reactions). The
  other \<^verbatim>\<open>await\<close>s of the invocation are taken as atomic.
\<close>

record 'x env =
  lookupOrCreate :: "string \<Rightarrow> 'x \<Rightarrow> conversation option"
  getConversation :: "string \<Rightarrow> 'x \<Rightarrow> conversation option"
  getConversationForTargetMessage :: "string \<Rightarrow> int \<Rightarrow> 'x \<Rightarrow> conversation option"
  getMessagesBySentAt :: "int \<Rightarrow> 'x \<Rightarrow> message list"
  getContact :: "message \<Rightarrow> 'x \<Rightarrow> conversation option"
  getContactId :: "message \<Rightarrow> 'x \<Rightarrow> string option"
  isStory :: "message \<Rightarrow> bool"
  isOutgoing :: "message \<Rightarrow> bool"
  isDirectConversation :: "conversation \<Rightarrow> bool"
  isMe :: "conversation \<Rightarrow> bool"
  getCheckedUuid :: "'x \<Rightarrow> error + string"
  saveMessage :: "message \<Rightarrow> string \<Rightarrow> bool \<Rightarrow> 'x \<Rightarrow> error option \<times> 'x"
  hydrateStoryContext :: "message \<Rightarrow> message \<Rightarrow> 'x \<Rightarrow> error + message"
  addSingleMessage :: "conversation \<Rightarrow> message \<Rightarrow> 'x \<Rightarrow> 'x"
  handleReaction :: "message \<Rightarrow> reaction \<Rightarrow> 'x \<Rightarrow> error option \<times> 'x"
  whileQueued :: "conversation \<Rightarrow> reaction list \<times> 'x \<Rightarrow> reaction list \<times> 'x"

definition emit :: "event \<Rightarrow> 'x world \<Rightarrow> 'x world" where
  "emit e w = w\<lparr>trace := trace w @ [e]\<rparr>"

definition emits :: "event list \<Rightarrow> 'x world \<Rightarrow> 'x world" where
  "emits es w = w\<lparr>trace := trace w @ es\<rparr>"

subsection \<open>The collection\<close>

text \<open>
  \<^verbatim>\<open>Collection.filter\<close> is the list \<open>filter\<close> over the models, in the collection's
  order. \<^verbatim>\<open>Collection.remove(models)\<close> looks each given model up by its \<^verbatim>\<open>cid\<close> and
  takes the model found out of the collection; a model that is not in the collection is
  skipped. A Backbone collection never holds two models with one \<^verbatim>\<open>cid\<close>.
\<close>

definition c_remove :: "reaction list \<Rightarrow> reaction list \<Rightarrow> reaction list" where
  "c_remove models coll = filter (\<lambda>item. cid item \<notin> set (map cid models)) coll"

definition wf_collection :: "reaction list \<Rightarrow> bool" where
  "wf_collection coll = distinct (map cid coll)"

definition remove_models :: "reaction list \<Rightarrow> 'x world \<Rightarrow> 'x world" where
  "remove_models models w = w\<lparr>reactions := c_remove models (reactions w)\<rparr>"

subsection \<open>forMessage\<close>

text \<open>
  Lines 46 to 63. \<^verbatim>\<open>targetSender?.id === senderId\<close> compares two values of type
  \<^verbatim>\<open>string | undefined\<close>. The filter calls \<^verbatim>\<open>lookupOrCreate\<close> once for every model of
  the collection, in order.
\<close>

definition forMessage_bySource :: "'x env \<Rightarrow> message \<Rightarrow> 'x world \<Rightarrow> reaction list \<times> 'x world" where
  "forMessage_bySource env message w =
     (let senderId = getContactId env message (collab w);
          sentAt = sent_at message;
          reactionsBySource =
            filter
              (\<lambda>re. let targetSender = lookupOrCreate env (targetAuthorUuid re) (collab w)
                    in map_option conv_id targetSender = senderId \<and> targetTimestamp re = sentAt)
              (reactions w);
          w1 = emits (map (\<lambda>re. LookupOrCreate (targetAuthorUuid re) ''Reactions.forMessage'')
                        (reactions w)) w
      in if length reactionsBySource > 0
         then (reactionsBySource,
               remove_models reactionsBySource (emit (LogInfo ''Found early reaction for message'') w1))
         else ([], w1))"

definition forMessage :: "'x env \<Rightarrow> message \<Rightarrow> 'x world \<Rightarrow> reaction list \<times> 'x world" where
  "forMessage env message w =
     (if isOutgoing env message then
        (let outgoingReactions =
               filter (\<lambda>item. targetTimestamp item = sent_at message) (reactions w)
         in if length outgoingReactions > 0
            then (outgoingReactions,
                  remove_models outgoingReactions
                    (emit (LogInfo ''Found early reaction for outgoing message'') w))
            else forMessage_bySource env message w)
      else forMessage_bySource env message w)"

text \<open>
  The reactions that target a message, in the claim's words: the target author's uuid
  resolves to the message's sender contact id, and the target timestamp is the message's
  \<^verbatim>\<open>sent_at\<close>. Both ids are of type \<^verbatim>\<open>string | undefined\<close> and are compared as such: an
  author that resolves to no conversation and a message without a sender contact id
  compare equal, as \<^verbatim>\<open>undefined === undefined\<close> does.
\<close>

definition targetsMessage :: "'x env \<Rightarrow> 'x \<Rightarrow> message \<Rightarrow> reaction \<Rightarrow> bool" where
  "targetsMessage env x message re =
     (map_option conv_id (lookupOrCreate env (targetAuthorUuid re) x) = getContactId env message x \<and>
      targetTimestamp re = sent_at message)"

subsection \<open>findMessage\<close>

definition findMessage :: "'x env \<Rightarrow> int \<Rightarrow> string \<Rightarrow> 'x \<Rightarrow> message option" where
  "findMessage env targetTimestamp' targetConversationId x =
     find
       (\<lambda>m. case getContact env m x of
               None \<Rightarrow> False
             | Some contact \<Rightarrow> conv_id contact = targetConversationId)
       (getMessagesBySentAt env targetTimestamp' x)"

subsection \<open>onReaction\<close>

text \<open>JavaScript's truthiness of a \<^verbatim>\<open>string | undefined\<close>: \<^verbatim>\<open>undefined\<close> and \<^verbatim>\<open>''\<close> are falsy.\<close>

definition truthy :: "string option \<Rightarrow> string option" where
  "truthy v = (case v of None \<Rightarrow> None | Some s \<Rightarrow> if s = [] then None else Some s)"

text \<open>The condition of lines 125 to 130.\<close>

definition storyInDirectConversation :: "'x env \<Rightarrow> conversation option \<Rightarrow> message \<Rightarrow> bool" where
  "storyInDirectConversation env fromConversation targetMessageCheck =
     (case fromConversation of
        None \<Rightarrow> False
      | Some fc \<Rightarrow>
          isStory env targetMessageCheck \<and> isDirectConversation env fc \<and> \<not> isMe env fc)"

text \<open>The target conversation, lines 125 to 138.\<close>

definition resolveTargetConversation ::
  "'x env \<Rightarrow> conversation option \<Rightarrow> message \<Rightarrow> string \<Rightarrow> int \<Rightarrow> 'x \<Rightarrow> conversation option" where
  "resolveTargetConversation env fromConversation targetMessageCheck targetConversationId
       targetTimestamp' x =
     (if storyInDirectConversation env fromConversation targetMessageCheck
      then fromConversation
      else getConversationForTargetMessage env targetConversationId targetTimestamp' x)"

text \<open>\<^verbatim>\<open>generatedMessage.set({ expireTimer, storyId, storyReaction })\<close>, lines 177 to 185.\<close>

definition setStoryReaction :: "reaction \<Rightarrow> conversation \<Rightarrow> message \<Rightarrow> message \<Rightarrow> message" where
  "setStoryReaction reaction targetConversation targetMessage generatedMessage =
     generatedMessage
       \<lparr> expireTimer := conv_expireTimer targetConversation,
         storyId := Some (msg_id targetMessage),
         storyReaction :=
           Some \<lparr> sr_emoji = emoji reaction,
                  sr_targetAuthorUuid = targetAuthorUuid reaction,
                  sr_targetTimestamp = targetTimestamp reaction \<rparr> \<rparr>"

text \<open>
  The \<^verbatim>\<open>if (isStory(targetMessage))\<close> statement, lines 176 to 212. The arguments of
  \<^verbatim>\<open>saveMessage\<close> are evaluated first (\<^verbatim>\<open>getCheckedUuid\<close> may throw). Then the save and
  \<^verbatim>\<open>hydrateStoryContext\<close> are both started, and \<^verbatim>\<open>await Promise.all\<close> throws when either
  rejects: the rest of the statement, \<^verbatim>\<open>handleReaction\<close> and \<^verbatim>\<open>this.remove\<close> are then
  skipped. When both reject, which error \<^verbatim>\<open>Promise.all\<close> reports depends on which
  rejects first; the model takes the save's. The result is the exception thrown, if any,
  and the state reached.
\<close>

definition storyBranch ::
  "'x env \<Rightarrow> reaction \<Rightarrow> message \<Rightarrow> conversation \<Rightarrow> message \<Rightarrow> 'x world \<Rightarrow> error option \<times> 'x world" where
  "storyBranch env reaction generatedMessage targetConversation targetMessage w =
     (if isStory env targetMessage then
        (let generated1 = setStoryReaction reaction targetConversation targetMessage generatedMessage;
             w1 = emit GetCheckedUuid w
         in case getCheckedUuid env (collab w1) of
              Inl e \<Rightarrow> (Some e, w1)
            | Inr ourUuid \<Rightarrow>
                (let saved = saveMessage env generated1 ourUuid True (collab w1);
                     hydrated = hydrateStoryContext env generated1 targetMessage (collab w1);
                     w2 = (emits [SaveMessage generated1 ourUuid True,
                                  HydrateStoryContext (msg_id generated1) (msg_id targetMessage)] w1)
                            \<lparr>collab := snd saved\<rparr>
                 in case fst saved of
                      Some e \<Rightarrow> (Some e, w2)
                    | None \<Rightarrow>
                        (case hydrated of
                           Inl e \<Rightarrow> (Some e, w2)
                         | Inr generated2 \<Rightarrow>
                             (let w3 = emits [LogInfo ''Reactions.onReaction adding reaction to story'',
                                              Register (msg_id generated2)] w2;
                                  messageToAdd = generated2
                              in (None,
                                  (emit (AddSingleMessage (conv_id targetConversation) messageToAdd) w3)
                                    \<lparr>collab := addSingleMessage env targetConversation messageToAdd
                                                   (collab w3)\<rparr>)))))
      else (None, w))"

text \<open>
  The job given to the conversation queue, lines 150 to 217. \<open>None\<close>: the job's promise
  resolves; \<open>Some e\<close>: it rejects with \<open>e\<close>. \<^verbatim>\<open>MessageController.register\<close> gives the
  model registered for the re-fetched attributes, written \<open>message\<close> as in the source and
  handed on by those attributes. \<^verbatim>\<open>this.remove(reaction)\<close> is the last statement, reached
  only when nothing before it threw or returned.
\<close>

definition applyJob ::
  "'x env \<Rightarrow> reaction \<Rightarrow> message \<Rightarrow> conversation \<Rightarrow> string \<Rightarrow> 'x world \<Rightarrow> error option \<times> 'x world" where
  "applyJob env reaction generatedMessage targetConversation targetConversationId w =
     (let w1 = emits [LogInfo ''Handling reaction for'',
                      GetMessagesBySentAt (targetTimestamp reaction)] w
      in case findMessage env (targetTimestamp reaction) targetConversationId (collab w1) of
           None \<Rightarrow> (None, w1)
         | Some targetMessage \<Rightarrow>
             (let message = targetMessage;
                  w2 = emit (Register (msg_id targetMessage)) w1;
                  story = storyBranch env reaction generatedMessage targetConversation
                            targetMessage w2
              in case fst story of
                   Some e \<Rightarrow> (Some e, snd story)
                 | None \<Rightarrow>
                     (let w3 = snd story;
                          handled = handleReaction env message reaction (collab w3);
                          w4 = (emit (HandleReaction (msg_id message) reaction) w3)
                                 \<lparr>collab := snd handled\<rparr>
                      in case fst handled of
                           Some e \<Rightarrow> (Some e, w4)
                         | None \<Rightarrow> (None, remove_models [reaction] w4))))"

text \<open>
  Modelled from the spec: \<^verbatim>\<open>ConversationModel.queueJob\<close>, which is not in the module. The
  spec's per-conversation serialized task queue runs a job once, after the jobs queued
  before it, and its completion is the job's: \<open>whileQueued\<close> happens, then the job runs,
  and \<^verbatim>\<open>await queueJob(...)\<close> throws what the job throws.
\<close>

definition queueJob ::
  "'x env \<Rightarrow> conversation \<Rightarrow> string \<Rightarrow> ('x world \<Rightarrow> error option \<times> 'x world) \<Rightarrow> 'x world
     \<Rightarrow> error option \<times> 'x world" where
  "queueJob env conv name job w =
     (let later = whileQueued env conv (reactions w, collab w)
      in job ((emit (QueueJob conv name) w)\<lparr>reactions := fst later, collab := snd later\<rparr>))"

text \<open>The body of the \<^verbatim>\<open>try\<close>, lines 91 to 217: the exception thrown, if any, and the state.\<close>

definition onReaction_try ::
  "'x env \<Rightarrow> reaction \<Rightarrow> message \<Rightarrow> 'x world \<Rightarrow> error option \<times> 'x world" where
  "onReaction_try env reaction generatedMessage w =
     (let targetAuthorConversation = lookupOrCreate env (targetAuthorUuid reaction) (collab w);
          w1 = emit (LookupOrCreate (targetAuthorUuid reaction) ''Reactions.onReaction'') w
      in case truthy (map_option conv_id targetAuthorConversation) of
           None \<Rightarrow>
             (Some (Error ''onReaction: No conversationId returned from lookupOrCreate!''), w1)
         | Some targetConversationId \<Rightarrow>
             (let fromConversation =
                    getConversation env (conversationId generatedMessage) (collab w1);
                  w2 = emits [ControllerGet (conversationId generatedMessage),
                              GetMessagesBySentAt (targetTimestamp reaction)] w1
              in case findMessage env (targetTimestamp reaction) targetConversationId (collab w2) of
                   None \<Rightarrow> (None, emit (LogInfo ''No message for reaction'') w2)
                 | Some targetMessageCheck \<Rightarrow>
                     (let targetConversation =
                            resolveTargetConversation env fromConversation targetMessageCheck
                              targetConversationId (targetTimestamp reaction) (collab w2);
                          w3 = (if storyInDirectConversation env fromConversation targetMessageCheck
                                then w2
                                else emit (GetConversationForTargetMessage targetConversationId
                                             (targetTimestamp reaction)) w2)
                      in case targetConversation of
                           None \<Rightarrow> (None, emit (LogInfo ''No target conversation for reaction'') w3)
                         | Some conv \<Rightarrow>
                             queueJob env conv ''Reactions.onReaction''
                               (applyJob env reaction generatedMessage conv targetConversationId)
                               w3)))"

text \<open>
  \<^verbatim>\<open>onReaction\<close>: the \<^verbatim>\<open>try\<close> with its \<^verbatim>\<open>catch\<close>, which logs the error. The result is how
  the promise returned by the \<^verbatim>\<open>async\<close> function settles, and the state.
\<close>

definition onReaction :: "'x env \<Rightarrow> reaction \<Rightarrow> message \<Rightarrow> 'x world \<Rightarrow> settled \<times> 'x world" where
  "onReaction env reaction generatedMessage w =
     (case onReaction_try env reaction generatedMessage w of
        (Some e, w') \<Rightarrow> (Resolved, emit (LogError ''Reactions.onReaction error:'' e) w')
      | (None, w') \<Rightarrow> (Resolved, w'))"

subsection \<open>Reading a trace\<close>

definition newEvents :: "'x world \<Rightarrow> 'x world \<Rightarrow> event list" where
  "newEvents w w' = drop (length (trace w)) (trace w')"

fun isHandleReaction :: "event \<Rightarrow> bool" where
  "isHandleReaction (HandleReaction i r) = True"
| "isHandleReaction e = False"

fun isQueueJob :: "event \<Rightarrow> bool" where
  "isQueueJob (QueueJob c n) = True"
| "isQueueJob e = False"

fun isLogError :: "event \<Rightarrow> bool" where
  "isLogError (LogError s e) = True"
| "isLogError e = False"

fun isLookupOrCreate :: "event \<Rightarrow> bool" where
  "isLookupOrCreate (LookupOrCreate u n) = True"
| "isLookupOrCreate e = False"

subsection \<open>An example environment\<close>

text \<open>
  Concrete collaborators for the examples: the collaborators' state is the message store,
  a list of message attributes. Every uuid but the empty one has a direct conversation
  \<open>conv-uuid\<close>; a message without \<open>sourceUuid\<close> is the client's own.
\<close>

definition ex_conversation :: "string \<Rightarrow> conversation" where
  "ex_conversation i = \<lparr> conv_id = i, conv_type = ''private'', conv_expireTimer = Some 60 \<rparr>"

definition ex_lookupOrCreate :: "string \<Rightarrow> message list \<Rightarrow> conversation option" where
  "ex_lookupOrCreate uuid x = (if uuid = [] then None else Some (ex_conversation (''conv-'' @ uuid)))"

definition ex_getConversation :: "string \<Rightarrow> message list \<Rightarrow> conversation option" where
  "ex_getConversation i x = (if i = [] then None else Some (ex_conversation i))"

definition ex_getContact :: "message \<Rightarrow> message list \<Rightarrow> conversation option" where
  "ex_getContact m x =
     (case sourceUuid m of
        None \<Rightarrow> Some (ex_conversation ''conv-me'')
      | Some u \<Rightarrow> ex_lookupOrCreate u x)"

definition ex_getConversationForTargetMessage ::
  "string \<Rightarrow> int \<Rightarrow> message list \<Rightarrow> conversation option" where
  "ex_getConversationForTargetMessage targetConversationId ts x =
     (case find (\<lambda>m. sent_at m = ts \<and>
                       map_option conv_id (ex_getContact m x) = Some targetConversationId) x of
        None \<Rightarrow> None
      | Some m \<Rightarrow> ex_getConversation (conversationId m) x)"

text \<open>
  Modelled from the spec: \<^verbatim>\<open>MessageModel.handleReaction\<close>, which is not in the module. By
  the spec's apply step it attaches the reaction in place onto the target message's own
  reaction list, keyed by sender: a later reaction of the same sender replaces the
  earlier one.
\<close>

definition ex_handleReaction :: "message \<Rightarrow> reaction \<Rightarrow> message list \<Rightarrow> error option \<times> message list" where
  "ex_handleReaction message reaction x =
     (None,
      map (\<lambda>m. if msg_id m = msg_id message
               then m\<lparr>msg_reactions :=
                        filter (\<lambda>re. fst re \<noteq> fromId reaction) (msg_reactions m) @
                        [(fromId reaction, emoji reaction)]\<rparr>
               else m) x)"

definition ex_saveMessage :: "message \<Rightarrow> string \<Rightarrow> bool \<Rightarrow> message list \<Rightarrow> error option \<times> message list" where
  "ex_saveMessage m ourUuid forceSave x = (None, filter (\<lambda>m'. msg_id m' \<noteq> msg_id m) x @ [m])"

definition example_env :: "message list env" where
  "example_env =
     \<lparr> lookupOrCreate = ex_lookupOrCreate,
       getConversation = ex_getConversation,
       getConversationForTargetMessage = ex_getConversationForTargetMessage,
       getMessagesBySentAt = (\<lambda>ts x. filter (\<lambda>m. sent_at m = ts) x),
       getContact = ex_getContact,
       getContactId = (\<lambda>m x. map_option conv_id (ex_getContact m x)),
       isStory = (\<lambda>m. msg_type m = ''story''),
       isOutgoing = (\<lambda>m. msg_type m = ''outgoing''),
       isDirectConversation = (\<lambda>c. conv_type c = ''private''),
       isMe = (\<lambda>c. conv_id c = ''conv-me''),
       getCheckedUuid = (\<lambda>x. Inr ''me''),
       saveMessage = ex_saveMessage,
       hydrateStoryContext = (\<lambda>generated story x. Inr generated),
       addSingleMessage = (\<lambda>c m x. x),
       handleReaction = ex_handleReaction,
       whileQueued = (\<lambda>c s. s) \<rparr>"

text \<open>The same, with a store whose writes fail.\<close>

definition failing_store_env :: "message list env" where
  "failing_store_env =
     example_env\<lparr> saveMessage := (\<lambda>m ourUuid forceSave x. (Some (Error ''write failed''), x)) \<rparr>"

text \<open>The same, where the store is emptied while the job waits in the queue.\<close>

definition vanishing_env :: "message list env" where
  "vanishing_env = example_env\<lparr> whileQueued := (\<lambda>c s. (fst s, [])) \<rparr>"

definition heart :: reaction where
  "heart = \<lparr> cid = 1, emoji = ''heart'', fromId = ''conv-bob'', targetAuthorUuid = ''alice'',
             targetTimestamp = 1000, timestamp = 2000 \<rparr>"

definition thumb :: reaction where
  "thumb = \<lparr> cid = 2, emoji = ''thumb'', fromId = ''conv-bob'', targetAuthorUuid = ''carol'',
             targetTimestamp = 1000, timestamp = 2001 \<rparr>"

definition orphan :: reaction where
  "orphan = \<lparr> cid = 3, emoji = ''heart'', fromId = ''conv-bob'', targetAuthorUuid = [],
              targetTimestamp = 1000, timestamp = 2002 \<rparr>"

definition ex_message :: "string \<Rightarrow> string \<Rightarrow> int \<Rightarrow> string \<Rightarrow> string option \<Rightarrow> message" where
  "ex_message i ty ts conv src =
     \<lparr> msg_id = i, msg_type = ty, sent_at = ts, conversationId = conv, sourceUuid = src,
       expireTimer = None, storyId = None, storyReaction = None, msg_reactions = [] \<rparr>"

definition alice_message :: message where
  "alice_message = ex_message ''m1'' ''incoming'' 1000 ''group-1'' (Some ''alice'')"

definition alice_story :: message where
  "alice_story = ex_message ''s1'' ''story'' 1000 ''conv-alice'' (Some ''alice'')"

definition own_message :: message where
  "own_message = ex_message ''m2'' ''outgoing'' 1000 ''group-1'' None"

definition placeholder :: message where
  "placeholder = ex_message ''gen1'' ''incoming'' 2000 ''conv-bob'' (Some ''bob'')"

definition ex_world :: "reaction list \<Rightarrow> message list \<Rightarrow> message list world" where
  "ex_world rs x = \<lparr> reactions = rs, collab = x, trace = [] \<rparr>"

text \<open>
  More inputs: a reaction to a message sent at another time, the two stores used below,
  and a directory in which no conversation recognises the target message.
\<close>

definition belated :: reaction where
  "belated = \<lparr> cid = 4, emoji = ''heart'', fromId = ''conv-bob'', targetAuthorUuid = ''alice'',
             targetTimestamp = 3000, timestamp = 3001 \<rparr>"

definition message_world :: "message list world" where
  "message_world = ex_world [heart, thumb] [alice_message]"

definition story_world :: "message list world" where
  "story_world = ex_world [heart, thumb] [alice_story]"

definition unknown_conversation_env :: "message list env" where
  "unknown_conversation_env =
     example_env\<lparr> getConversationForTargetMessage := (\<lambda>targetConversationId ts x. None) \<rparr>"

text \<open>Directories and stores in which one collaborator of the apply step fails.\<close>

definition no_uuid_env :: "message list env" where
  "no_uuid_env = example_env\<lparr> getCheckedUuid := (\<lambda>x. Inl (Error ''no uuid'')) \<rparr>"

definition failing_hydrate_env :: "message list env" where
  "failing_hydrate_env =
     example_env\<lparr> hydrateStoryContext := (\<lambda>generated story x. Inl (Error ''hydrate failed'')) \<rparr>"

definition failing_attach_env :: "message list env" where
  "failing_attach_env =
     example_env\<lparr> handleReaction := (\<lambda>m re x. (Some (Error ''attach failed''), x)) \<rparr>"

section \<open>Properties of the lightbox selectors\<close>

lemma findIndexFrom_none: "\<forall>x \<in> set xs. \<not> p x \<Longrightarrow> findIndexFrom p k xs = - 1"
  by (induction xs arbitrary: k) auto

lemma findIndexFrom_first:
  "i < length xs \<Longrightarrow> p (xs ! i) \<Longrightarrow> \<forall>j < i. \<not> p (xs ! j) \<Longrightarrow>
   findIndexFrom p k xs = k + int i"
proof (induction xs arbitrary: i k)
  case Nil
  then show ?case by simp
next
  case (Cons x xs)
  show ?case
  proof (cases i)
    case 0
    with Cons.prems show ?thesis by simp
  next
    case (Suc n)
    from Cons.prems(3) Suc have "\<not> p ((x # xs) ! 0)" by blast
    then have nx: "\<not> p x" by simp
    have earlier: "\<forall>j < n. \<not> p (xs ! j)"
    proof (intro allI impI)
      fix j assume "j < n"
      then have "Suc j < i" using Suc by simp
      with Cons.prems(3) have "\<not> p ((x # xs) ! Suc j)" by blast
      then show "\<not> p (xs ! j)" by simp
    qed
    from Cons.prems(1,2) Suc have "n < length xs" "p (xs ! n)" by simp_all
    then have "findIndexFrom p (k + 1) xs = k + 1 + int n"
      using earlier by (rule Cons.IH)
    with nx Suc show ?thesis by simp
  qed
qed

text \<open>
  C9. \<open>getSelectedIndex\<close> never returns a negative number. It returns 0 when the
  lightbox is not showing, when no media item has the selected attachment path, and when
  the first matching item is at position 0; when the first matching item is at a
  position \<open>i > 0\<close> it returns \<open>i\<close>. The \<open>-1\<close> of \<open>findIndex\<close> never reaches the
  caller.
\<close>

theorem getSelectedIndex_nonneg:
  "0 \<le> getSelectedIndex st \<and>
   (\<not> shouldShowLightbox st \<longrightarrow> getSelectedIndex st = 0) \<and>
   (noMatch (getLightboxState st) \<longrightarrow> getSelectedIndex st = 0) \<and>
   (firstMatchAt (getLightboxState st) 0 \<longrightarrow> getSelectedIndex st = 0) \<and>
   (\<forall>i. 0 < i \<and> firstMatchAt (getLightboxState st) i \<longrightarrow> getSelectedIndex st = int i)"
proof (cases "getLightboxState st")
  case NotShowing
  then show ?thesis
    by (simp add: getSelectedIndex_def shouldShowLightbox_def noMatch_def firstMatchAt_def)
next
  case (Showing v m sel)
  let ?p = "\<lambda>item. path (attachment item) = sel"
  have nonneg: "0 \<le> getSelectedIndex st"
    using Showing by (simp add: getSelectedIndex_def Let_def)
  have none: "getSelectedIndex st = 0" if "noMatch (getLightboxState st)"
  proof -
    from that Showing have "\<forall>x \<in> set m. \<not> ?p x" by (simp add: noMatch_def)
    then have "findIndex ?p m = - 1"
      unfolding findIndex_def by (rule findIndexFrom_none)
    with Showing show ?thesis by (simp add: getSelectedIndex_def)
  qed
  have at: "findIndex ?p m = int i" if "firstMatchAt (getLightboxState st) i" for i
  proof -
    from that Showing have "i < length m" "?p (m ! i)" "\<forall>j < i. \<not> ?p (m ! j)"
      by (simp_all add: firstMatchAt_def)
    then have "findIndexFrom ?p 0 m = 0 + int i" by (rule findIndexFrom_first)
    then show ?thesis by (simp add: findIndex_def)
  qed
  have zero: "getSelectedIndex st = 0" if "firstMatchAt (getLightboxState st) 0"
    using at [OF that] Showing by (simp add: getSelectedIndex_def)
  have pos: "getSelectedIndex st = int i" if "0 < i" "firstMatchAt (getLightboxState st) i" for i
    using at [OF that(2)] that(1) Showing by (simp add: getSelectedIndex_def)
  show ?thesis
    using nonneg none zero pos Showing by (simp add: shouldShowLightbox_def)
qed

lemma st_open_match:
  "firstMatchAt (getLightboxState (st_open ''c.jpg'')) 2"
  "firstMatchAt (getLightboxState (st_open ''a.jpg'')) 0"
  "noMatch (getLightboxState (st_open ''z.jpg''))"
  by (simp_all add: firstMatchAt_def noMatch_def getLightboxState_def st_open_def ex_item_def less_Suc_eq numeral_2_eq_2)

theorem getSelectedIndex_nonneg_witness:
  "\<not> shouldShowLightbox st_closed \<and> getSelectedIndex st_closed = 0 \<and>
   noMatch (getLightboxState (st_open ''z.jpg'')) \<and> getSelectedIndex (st_open ''z.jpg'') = 0 \<and>
   firstMatchAt (getLightboxState (st_open ''a.jpg'')) 0 \<and> getSelectedIndex (st_open ''a.jpg'') = 0 \<and>
   firstMatchAt (getLightboxState (st_open ''c.jpg'')) 2 \<and> getSelectedIndex (st_open ''c.jpg'') = 2"
proof -
  have closed: "\<not> shouldShowLightbox st_closed"
    by (simp add: shouldShowLightbox_def getLightboxState_def st_closed_def)
  have "0 < (2::nat) \<and> firstMatchAt (getLightboxState (st_open ''c.jpg'')) 2 \<longrightarrow>
        getSelectedIndex (st_open ''c.jpg'') = int 2"
    using getSelectedIndex_nonneg [of "st_open ''c.jpg''"] by blast
  then have third: "getSelectedIndex (st_open ''c.jpg'') = 2"
    using st_open_match(1) by simp
  show ?thesis
    using closed third getSelectedIndex_nonneg [of st_closed]
      getSelectedIndex_nonneg [of "st_open ''z.jpg''"]
      getSelectedIndex_nonneg [of "st_open ''a.jpg''"] st_open_match
    by simp
qed

section \<open>Properties of the groups-in-common panel\<close>

lemma slice_from_zero: "0 \<le> e \<Longrightarrow> slice 0 e xs = take (nat e) xs"
  by (simp add: slice_def Let_def min_def)

lemma shownGroups_GroupRows: "shownGroups (map GroupRow gs @ rs) = gs @ shownGroups rs"
  by (induction gs) auto

lemma collapsed_rows:
  "panel_rows (ConversationDetailsGroups False gs) =
     AddToGroupRow # map GroupRow (take 5 gs) @ (if 7 \<le> length gs then [ShowAllRow] else [])"
  by (auto simp add: ConversationDetailsGroups_def Let_def slice_from_zero)

text \<open>
  C10. While \<open>showAllGroups\<close> is false the panel shows the first five groups at most,
  and the "show all" row is rendered exactly when \<open>length - 5 > 1\<close>, that is for seven
  groups or more. With exactly six groups five rows are rendered and no "show all" row:
  \<open>showAllGroups\<close> can then never become true, so the sixth group is never shown.
\<close>

theorem ConversationDetailsGroups_collapsed:
  "shownGroups (panel_rows (ConversationDetailsGroups False gs)) = take 5 gs \<and>
   length (shownGroups (panel_rows (ConversationDetailsGroups False gs))) \<le> 5 \<and>
   (ShowAllRow \<in> set (panel_rows (ConversationDetailsGroups False gs))
      \<longleftrightarrow> int (length gs) - 5 > 1) \<and>
   (ShowAllRow \<in> set (panel_rows (ConversationDetailsGroups False gs))
      \<longleftrightarrow> 7 \<le> length gs) \<and>
   (length gs = 6 \<longrightarrow>
      panel_rows (ConversationDetailsGroups False gs) = AddToGroupRow # map GroupRow (take 5 gs) \<and>
      length (shownGroups (panel_rows (ConversationDetailsGroups False gs))) = 5 \<and>
      (\<forall>s. reachableShowAll gs s \<longrightarrow> s = False))"
proof -
  have rows: "shownGroups (panel_rows (ConversationDetailsGroups False gs)) = take 5 gs"
    by (simp add: collapsed_rows shownGroups_GroupRows)
  have showall: "ShowAllRow \<in> set (panel_rows (ConversationDetailsGroups False gs)) \<longleftrightarrow> 7 \<le> length gs"
    by (auto simp add: collapsed_rows)
  have six: "\<forall>s. reachableShowAll gs s \<longrightarrow> s = False" if "length gs = 6"
  proof (intro allI impI)
    fix s assume "reachableShowAll gs s"
    then show "s = False"
    proof (induction rule: reachableShowAll.induct)
      case initial
      show ?case by simp
    next
      case (click s)
      then have "ShowAllRow \<in> set (panel_rows (ConversationDetailsGroups False gs))" by simp
      with showall that show ?case by simp
    qed
  qed
  show ?thesis
    using rows showall six by (auto simp add: collapsed_rows)
qed

theorem ConversationDetailsGroups_collapsed_witness:
  "length six_groups = 6 \<and>
   panel_rows (ConversationDetailsGroups False six_groups) =
     [AddToGroupRow, GroupRow ''g1'', GroupRow ''g2'', GroupRow ''g3'', GroupRow ''g4'', GroupRow ''g5''] \<and>
   \<not> reachableShowAll six_groups True"
  using ConversationDetailsGroups_collapsed [of six_groups]
  by (auto simp add: six_groups_def)

section \<open>Properties of the pending reactions\<close>

subsection \<open>The collection and the job\<close>

lemmas model_defs =
  onReaction_def onReaction_try_def queueJob_def applyJob_def storyBranch_def setStoryReaction_def
  resolveTargetConversation_def storyInDirectConversation_def truthy_def findMessage_def
  forMessage_def forMessage_bySource_def remove_models_def c_remove_def emit_def emits_def
  newEvents_def Let_def

lemmas example_defs =
  example_env_def failing_store_env_def vanishing_env_def ex_lookupOrCreate_def
  ex_getConversation_def ex_getContact_def ex_getConversationForTargetMessage_def
  ex_handleReaction_def ex_saveMessage_def ex_conversation_def ex_message_def ex_world_def
  heart_def thumb_def orphan_def alice_message_def alice_story_def own_message_def placeholder_def

lemmas more_defs = belated_def message_world_def story_world_def unknown_conversation_env_def
  no_uuid_env_def failing_hydrate_env_def failing_attach_env_def
  wf_collection_def targetsMessage_def

lemma c_remove_gone:
  assumes "r \<in> set models"
  shows "cid r \<notin> cid ` set (c_remove models coll)"
proof
  assume "cid r \<in> cid ` set (c_remove models coll)"
  then obtain x where "x \<in> set (c_remove models coll)" and "cid r = cid x" by blast
  then have "cid r \<notin> set (map cid models)" by (simp add: c_remove_def)
  with assms show False by simp
qed

lemma c_remove_matching:
  "wf_collection coll \<Longrightarrow> c_remove (filter P coll) coll = filter (\<lambda>r. \<not> P r) coll"
  unfolding c_remove_def wf_collection_def
  by (rule filter_cong [OF refl]) (auto simp add: distinct_map inj_on_def)

lemma applyJob_events:
  "\<exists>es. trace (snd (applyJob env r g conv tid w)) = trace w @ es \<and>
        filter isQueueJob es = [] \<and> filter isLogError es = [] \<and>
        length (filter isHandleReaction es) \<le> 1"
  by (auto simp add: applyJob_def storyBranch_def emit_def emits_def remove_models_def Let_def
      split: option.splits sum.splits)

lemma onReaction_try_enqueued:
  assumes "truthy (map_option conv_id (lookupOrCreate env (targetAuthorUuid r) (collab w))) = Some tid"
    and "findMessage env (targetTimestamp r) tid (collab w) = Some check"
    and "resolveTargetConversation env (getConversation env (conversationId g) (collab w)) check tid
           (targetTimestamp r) (collab w) = Some conv"
  shows "onReaction_try env r g w =
           applyJob env r g conv tid
             (w\<lparr> trace := trace w @
                  [LookupOrCreate (targetAuthorUuid r) ''Reactions.onReaction'',
                   ControllerGet (conversationId g),
                   GetMessagesBySentAt (targetTimestamp r)] @
                  (if storyInDirectConversation env (getConversation env (conversationId g) (collab w)) check
                   then [] else [GetConversationForTargetMessage tid (targetTimestamp r)]) @
                  [QueueJob conv ''Reactions.onReaction''],
                reactions := fst (whileQueued env conv (reactions w, collab w)),
                collab := snd (whileQueued env conv (reactions w, collab w)) \<rparr>)"
  using assms
  by (simp add: onReaction_try_def queueJob_def emit_def emits_def Let_def)


lemma applyJob_missing:
  "findMessage env (targetTimestamp r) tid (collab w) = None \<Longrightarrow>
   applyJob env r g conv tid w =
     (None, w\<lparr>trace := trace w @ [LogInfo ''Handling reaction for'',
                                    GetMessagesBySentAt (targetTimestamp r)]\<rparr>)"
  by (simp add: applyJob_def emits_def)

lemma storyBranch_reactions:
  "reactions (snd (storyBranch env r g conv m w)) = reactions w"
  by (simp add: storyBranch_def emit_def emits_def Let_def split: option.splits sum.splits)


text \<open>The job once the message is found: the story branch, then \<open>handleReaction\<close>.\<close>

lemma applyJob_found:
  assumes "findMessage env (targetTimestamp r) tid (collab w) = Some m"
  shows "applyJob env r g conv tid w =
     (let w2 = w\<lparr>trace := trace w @ [LogInfo ''Handling reaction for'',
                                       GetMessagesBySentAt (targetTimestamp r),
                                       Register (msg_id m)]\<rparr>;
          story = storyBranch env r g conv m w2
      in case fst story of
           Some e \<Rightarrow> (Some e, snd story)
         | None \<Rightarrow>
             (case fst (handleReaction env m r (collab (snd story))) of
                Some e \<Rightarrow>
                  (Some e, (snd story)\<lparr>trace := trace (snd story) @ [HandleReaction (msg_id m) r],
                                       collab := snd (handleReaction env m r (collab (snd story)))\<rparr>)
              | None \<Rightarrow>
                  (None, (snd story)\<lparr>trace := trace (snd story) @ [HandleReaction (msg_id m) r],
                                    collab := snd (handleReaction env m r (collab (snd story))),
                                    reactions := c_remove [r] (reactions (snd story))\<rparr>)))"
  using assms
  by (simp add: applyJob_def emit_def emits_def remove_models_def Let_def split: option.splits)


lemma applyJob_thrown:
  assumes "fst (applyJob env r g conv tid w) = Some e"
  shows "reactions (snd (applyJob env r g conv tid w)) = reactions w"
proof (cases "findMessage env (targetTimestamp r) tid (collab w)")
  case None
  then show ?thesis by (simp add: applyJob_missing)
next
  case (Some m)
  with assms show ?thesis
    by (simp add: applyJob_found Let_def storyBranch_reactions split: option.splits)
qed

lemma onReaction_settles:
  "onReaction env r g w =
     (Resolved,
      case fst (onReaction_try env r g w) of
        Some e \<Rightarrow> emit (LogError ''Reactions.onReaction error:'' e) (snd (onReaction_try env r g w))
      | None \<Rightarrow> snd (onReaction_try env r g w))"
  by (simp add: onReaction_def split: prod.splits option.splits)

lemma c_remove_claimed:
  "\<forall>r \<in> set (filter P coll). r \<notin> set (c_remove (filter P coll) coll)"
proof
  fix r assume r: "r \<in> set (filter P coll)"
  then have "cid r \<notin> cid ` set (c_remove (filter P coll) coll)" by (rule c_remove_gone)
  then show "r \<notin> set (c_remove (filter P coll) coll)" by blast
qed

lemma onReaction_enqueued_events:
  assumes author:
      "truthy (map_option conv_id (lookupOrCreate env (targetAuthorUuid r) (collab w))) = Some tid"
    and first: "findMessage env (targetTimestamp r) tid (collab w) = Some check"
    and target:
      "resolveTargetConversation env (getConversation env (conversationId g) (collab w)) check tid
         (targetTimestamp r) (collab w) = Some conv"
  shows "filter isQueueJob (newEvents w (snd (onReaction env r g w))) =
           [QueueJob conv ''Reactions.onReaction'']"
proof -
  define pre where
    "pre = [LookupOrCreate (targetAuthorUuid r) ''Reactions.onReaction'',
            ControllerGet (conversationId g), GetMessagesBySentAt (targetTimestamp r)] @
           (if storyInDirectConversation env (getConversation env (conversationId g) (collab w)) check
            then [] else [GetConversationForTargetMessage tid (targetTimestamp r)]) @
           [QueueJob conv ''Reactions.onReaction'']"
  define wq where
    "wq = w\<lparr> trace := trace w @ pre,
              reactions := fst (whileQueued env conv (reactions w, collab w)),
              collab := snd (whileQueued env conv (reactions w, collab w)) \<rparr>"
  have body: "onReaction_try env r g w = applyJob env r g conv tid wq"
    unfolding wq_def pre_def by (rule onReaction_try_enqueued [OF author first target])
  obtain es where es: "trace (snd (applyJob env r g conv tid wq)) = trace wq @ es"
      "filter isQueueJob es = []"
    using applyJob_events [of env r g conv tid wq] by blast
  have pre_queue: "filter isQueueJob pre = [QueueJob conv ''Reactions.onReaction'']"
    by (simp add: pre_def)
  show ?thesis
    using es pre_queue
    by (cases "fst (applyJob env r g conv tid wq)")
       (simp_all add: onReaction_settles body newEvents_def wq_def emit_def)
qed

subsection \<open>forMessage\<close>

text \<open>
  C2. For an outgoing message and a collection that holds at least one reaction whose
  target timestamp is the message's \<^verbatim>\<open>sent_at\<close>, \<open>forMessage\<close> returns exactly those
  reactions, none of them is in the collection afterwards (and, the collection being
  well formed, exactly the others are), and the only call made is one \<^verbatim>\<open>log.info\<close>:
  \<^verbatim>\<open>lookupOrCreate\<close> is not called and the collaborators' state is untouched.
\<close>

theorem forMessage_outgoing_shortcut:
  assumes "isOutgoing env message"
    and "filter (\<lambda>item. targetTimestamp item = sent_at message) (reactions w) \<noteq> []"
  shows "fst (forMessage env message w) =
           filter (\<lambda>item. targetTimestamp item = sent_at message) (reactions w) \<and>
         (\<forall>r \<in> set (fst (forMessage env message w)).
            r \<notin> set (reactions (snd (forMessage env message w)))) \<and>
         (wf_collection (reactions w) \<longrightarrow>
            reactions (snd (forMessage env message w)) =
              filter (\<lambda>item. targetTimestamp item \<noteq> sent_at message) (reactions w)) \<and>
         newEvents w (snd (forMessage env message w)) =
           [LogInfo ''Found early reaction for outgoing message''] \<and>
         filter isLookupOrCreate (newEvents w (snd (forMessage env message w))) = [] \<and>
         collab (snd (forMessage env message w)) = collab w"
  using assms c_remove_claimed [of "\<lambda>item. targetTimestamp item = sent_at message" "reactions w"]
  by (simp add: forMessage_def remove_models_def emit_def newEvents_def Let_def c_remove_matching)

theorem forMessage_outgoing_shortcut_witness:
  "isOutgoing example_env own_message \<and>
   filter (\<lambda>item. targetTimestamp item = sent_at own_message) (reactions story_world) \<noteq> [] \<and>
   wf_collection (reactions story_world) \<and>
   fst (forMessage example_env own_message story_world) = [heart, thumb] \<and>
   reactions (snd (forMessage example_env own_message story_world)) = [] \<and>
   newEvents story_world (snd (forMessage example_env own_message story_world)) =
     [LogInfo ''Found early reaction for outgoing message''] \<and>
   filter isLookupOrCreate
     (newEvents story_world (snd (forMessage example_env own_message story_world))) = []"
proof -
  have out: "isOutgoing example_env own_message"
    by (simp add: example_defs)
  have some: "filter (\<lambda>item. targetTimestamp item = sent_at own_message) (reactions story_world) \<noteq> []"
    by (simp add: example_defs more_defs)
  have wf: "wf_collection (reactions story_world)"
    by (simp add: example_defs more_defs)
  show ?thesis
    using forMessage_outgoing_shortcut [OF out some] out some wf
    by (simp add: example_defs more_defs)
qed

text \<open>
  C3. For a message that is not outgoing, or is outgoing with no reaction at its
  timestamp, \<open>forMessage\<close> returns exactly the reactions of the collection that target
  the message (\<open>targetsMessage\<close>), none of them is in the collection afterwards (and,
  the collection being well formed, exactly the others are); when no reaction targets the
  message the result is empty and the collection is unchanged.
\<close>

theorem forMessage_by_source:
  assumes "\<not> isOutgoing env message \<or>
           filter (\<lambda>item. targetTimestamp item = sent_at message) (reactions w) = []"
  shows "fst (forMessage env message w) =
           filter (targetsMessage env (collab w) message) (reactions w) \<and>
         (\<forall>r \<in> set (fst (forMessage env message w)).
            r \<notin> set (reactions (snd (forMessage env message w)))) \<and>
         (wf_collection (reactions w) \<longrightarrow>
            reactions (snd (forMessage env message w)) =
              filter (\<lambda>re. \<not> targetsMessage env (collab w) message re) (reactions w)) \<and>
         (filter (targetsMessage env (collab w) message) (reactions w) = [] \<longrightarrow>
            fst (forMessage env message w) = [] \<and>
            reactions (snd (forMessage env message w)) = reactions w)"
proof -
  let ?P = "targetsMessage env (collab w) message"
  have same: "forMessage env message w = forMessage_bySource env message w"
    using assms by (auto simp add: forMessage_def Let_def)
  have claimed: "\<forall>r \<in> set (filter ?P (reactions w)). r \<notin> set (c_remove (filter ?P (reactions w)) (reactions w))"
    by (rule c_remove_claimed)
  show ?thesis
  proof (cases "filter ?P (reactions w) = []")
    case True
    then show ?thesis
      unfolding same
      by (auto simp add: forMessage_bySource_def Let_def emits_def targetsMessage_def [abs_def]
          filter_empty_conv)
  next
    case False
    then show ?thesis
      unfolding same using claimed
      by (simp add: forMessage_bySource_def Let_def emits_def emit_def remove_models_def
          targetsMessage_def [abs_def] c_remove_matching)
  qed
qed

theorem forMessage_by_source_witness:
  "\<not> isOutgoing example_env alice_message \<and>
   wf_collection [heart, thumb, orphan] \<and>
   filter (targetsMessage example_env [alice_message] alice_message) [heart, thumb, orphan] = [heart] \<and>
   fst (forMessage example_env alice_message (ex_world [heart, thumb, orphan] [alice_message])) = [heart] \<and>
   reactions (snd (forMessage example_env alice_message (ex_world [heart, thumb, orphan] [alice_message])))
     = [thumb, orphan] \<and>
   isOutgoing example_env own_message \<and>
   filter (\<lambda>item. targetTimestamp item = sent_at own_message) [belated] = [] \<and>
   filter (targetsMessage example_env [alice_message] own_message) [belated] = [] \<and>
   fst (forMessage example_env own_message (ex_world [belated] [alice_message])) = [] \<and>
   reactions (snd (forMessage example_env own_message (ex_world [belated] [alice_message]))) = [belated]"
proof -
  have incoming: "\<not> isOutgoing example_env alice_message \<or>
      filter (\<lambda>item. targetTimestamp item = sent_at alice_message)
        (reactions (ex_world [heart, thumb, orphan] [alice_message])) = []"
    by (simp add: example_defs)
  have matches: "filter (targetsMessage example_env [alice_message] alice_message) [heart, thumb, orphan] = [heart]"
    by (simp add: example_defs more_defs)
  have wf: "wf_collection [heart, thumb, orphan]"
    by (simp add: example_defs more_defs)
  have outgoing: "\<not> isOutgoing example_env own_message \<or>
      filter (\<lambda>item. targetTimestamp item = sent_at own_message)
        (reactions (ex_world [belated] [alice_message])) = []"
    by (simp add: example_defs more_defs)
  have none: "filter (targetsMessage example_env [alice_message] own_message) [belated] = []"
    by (simp add: example_defs more_defs)
  show ?thesis
    using forMessage_by_source [OF incoming] forMessage_by_source [OF outgoing] matches wf none
    by (simp add: example_defs more_defs)
qed

subsection \<open>onReaction\<close>


text \<open>
  C4, as amended. Let the target author resolve and the first lookup find a candidate
  message. If the conversation of the generated message exists, the candidate is a story,
  and that conversation is direct and not the client's own, the job is queued on that
  conversation. Otherwise the job is queued on the conversation that
  \<^verbatim>\<open>getConversationForTargetMessage\<close> returns for the target author's conversation id
  and the target timestamp; when it returns none, \<open>onReaction\<close> logs "No target
  conversation for reaction" and returns: no job is queued, and the collection is left as
  it was, so a reaction held there is still held.
\<close>

theorem onReaction_target_conversation:
  assumes author:
      "truthy (map_option conv_id (lookupOrCreate env (targetAuthorUuid r) (collab w))) = Some tid"
    and first: "findMessage env (targetTimestamp r) tid (collab w) = Some check"
  shows
    "(\<forall>fc. getConversation env (conversationId g) (collab w) = Some fc \<and> isStory env check \<and>
           isDirectConversation env fc \<and> \<not> isMe env fc \<longrightarrow>
        filter isQueueJob (newEvents w (snd (onReaction env r g w))) =
          [QueueJob fc ''Reactions.onReaction'']) \<and>
     (\<not> (\<exists>fc. getConversation env (conversationId g) (collab w) = Some fc \<and> isStory env check \<and>
              isDirectConversation env fc \<and> \<not> isMe env fc) \<longrightarrow>
        (\<forall>conv. getConversationForTargetMessage env tid (targetTimestamp r) (collab w) = Some conv \<longrightarrow>
           filter isQueueJob (newEvents w (snd (onReaction env r g w))) =
             [QueueJob conv ''Reactions.onReaction'']) \<and>
        (getConversationForTargetMessage env tid (targetTimestamp r) (collab w) = None \<longrightarrow>
           onReaction env r g w =
             (Resolved,
              w\<lparr>trace := trace w @
                   [LookupOrCreate (targetAuthorUuid r) ''Reactions.onReaction'',
                    ControllerGet (conversationId g),
                    GetMessagesBySentAt (targetTimestamp r),
                    GetConversationForTargetMessage tid (targetTimestamp r),
                    LogInfo ''No target conversation for reaction'']\<rparr>) \<and>
           reactions (snd (onReaction env r g w)) = reactions w \<and>
           filter isQueueJob (newEvents w (snd (onReaction env r g w))) = []))"
proof (intro conjI allI impI)
  fix fc
  assume "getConversation env (conversationId g) (collab w) = Some fc \<and> isStory env check \<and>
          isDirectConversation env fc \<and> \<not> isMe env fc"
  then have "resolveTargetConversation env (getConversation env (conversationId g) (collab w)) check
      tid (targetTimestamp r) (collab w) = Some fc"
    by (simp add: resolveTargetConversation_def storyInDirectConversation_def)
  then show "filter isQueueJob (newEvents w (snd (onReaction env r g w))) =
      [QueueJob fc ''Reactions.onReaction'']"
    by (rule onReaction_enqueued_events [OF author first])
next
  fix conv
  assume other: "\<not> (\<exists>fc. getConversation env (conversationId g) (collab w) = Some fc \<and>
      isStory env check \<and> isDirectConversation env fc \<and> \<not> isMe env fc)"
    and "getConversationForTargetMessage env tid (targetTimestamp r) (collab w) = Some conv"
  then have "resolveTargetConversation env (getConversation env (conversationId g) (collab w)) check
      tid (targetTimestamp r) (collab w) = Some conv"
    by (auto simp add: resolveTargetConversation_def storyInDirectConversation_def
        split: option.splits)
  then show "filter isQueueJob (newEvents w (snd (onReaction env r g w))) =
      [QueueJob conv ''Reactions.onReaction'']"
    by (rule onReaction_enqueued_events [OF author first])
next
  assume other: "\<not> (\<exists>fc. getConversation env (conversationId g) (collab w) = Some fc \<and>
      isStory env check \<and> isDirectConversation env fc \<and> \<not> isMe env fc)"
    and none: "getConversationForTargetMessage env tid (targetTimestamp r) (collab w) = None"
  from other have "\<not> storyInDirectConversation env
      (getConversation env (conversationId g) (collab w)) check"
    by (auto simp add: storyInDirectConversation_def split: option.splits)
  with author first none have stopped: "onReaction env r g w =
      (Resolved,
       w\<lparr>trace := trace w @
            [LookupOrCreate (targetAuthorUuid r) ''Reactions.onReaction'',
             ControllerGet (conversationId g),
             GetMessagesBySentAt (targetTimestamp r),
             GetConversationForTargetMessage tid (targetTimestamp r),
             LogInfo ''No target conversation for reaction'']\<rparr>)"
    by (simp add: onReaction_def onReaction_try_def resolveTargetConversation_def emit_def
        emits_def Let_def)
  then show "onReaction env r g w =
      (Resolved,
       w\<lparr>trace := trace w @
            [LookupOrCreate (targetAuthorUuid r) ''Reactions.onReaction'',
             ControllerGet (conversationId g),
             GetMessagesBySentAt (targetTimestamp r),
             GetConversationForTargetMessage tid (targetTimestamp r),
             LogInfo ''No target conversation for reaction'']\<rparr>)" .
  from stopped show "reactions (snd (onReaction env r g w)) = reactions w"
    by simp
  from stopped show "filter isQueueJob (newEvents w (snd (onReaction env r g w))) = []"
    by (simp add: newEvents_def)
qed

theorem onReaction_target_conversation_witness:
  "truthy (map_option conv_id (lookupOrCreate example_env (targetAuthorUuid heart)
      (collab story_world))) = Some ''conv-alice'' \<and>
   findMessage example_env (targetTimestamp heart) ''conv-alice'' (collab story_world)
     = Some alice_story \<and>
   getConversation example_env (conversationId placeholder) (collab story_world)
     = Some (ex_conversation ''conv-bob'') \<and>
   isStory example_env alice_story \<and>
   isDirectConversation example_env (ex_conversation ''conv-bob'') \<and>
   \<not> isMe example_env (ex_conversation ''conv-bob'') \<and>
   filter isQueueJob (newEvents story_world (snd (onReaction example_env heart placeholder story_world)))
     = [QueueJob (ex_conversation ''conv-bob'') ''Reactions.onReaction''] \<and>
   findMessage example_env (targetTimestamp heart) ''conv-alice'' (collab message_world)
     = Some alice_message \<and>
   \<not> isStory example_env alice_message \<and>
   getConversationForTargetMessage example_env ''conv-alice'' (targetTimestamp heart)
     (collab message_world) = Some (ex_conversation ''group-1'') \<and>
   filter isQueueJob (newEvents message_world (snd (onReaction example_env heart placeholder message_world)))
     = [QueueJob (ex_conversation ''group-1'') ''Reactions.onReaction''] \<and>
   getConversationForTargetMessage unknown_conversation_env ''conv-alice'' (targetTimestamp heart)
     (collab message_world) = None \<and>
   onReaction unknown_conversation_env heart placeholder message_world =
     (Resolved,
      message_world\<lparr>trace :=
        [LookupOrCreate ''alice'' ''Reactions.onReaction'', ControllerGet ''conv-bob'',
         GetMessagesBySentAt 1000, GetConversationForTargetMessage ''conv-alice'' 1000,
         LogInfo ''No target conversation for reaction'']\<rparr>) \<and>
   reactions (snd (onReaction unknown_conversation_env heart placeholder message_world)) =
     [heart, thumb]"
proof -
  have author: "truthy (map_option conv_id (lookupOrCreate example_env (targetAuthorUuid heart)
      (collab story_world))) = Some ''conv-alice''"
    by (simp add: model_defs example_defs more_defs)
  have story: "findMessage example_env (targetTimestamp heart) ''conv-alice'' (collab story_world)
      = Some alice_story"
    by (simp add: model_defs example_defs more_defs)
  have sender: "getConversation example_env (conversationId placeholder) (collab story_world)
      = Some (ex_conversation ''conv-bob'') \<and> isStory example_env alice_story \<and>
      isDirectConversation example_env (ex_conversation ''conv-bob'') \<and>
      \<not> isMe example_env (ex_conversation ''conv-bob'')"
    by (simp add: example_defs more_defs)
  have author': "truthy (map_option conv_id (lookupOrCreate example_env (targetAuthorUuid heart)
      (collab message_world))) = Some ''conv-alice''"
    by (simp add: model_defs example_defs more_defs)
  have plain: "findMessage example_env (targetTimestamp heart) ''conv-alice'' (collab message_world)
      = Some alice_message"
    by (simp add: model_defs example_defs more_defs)
  have not_story: "\<not> (\<exists>fc. getConversation example_env (conversationId placeholder)
        (collab message_world) = Some fc \<and> isStory example_env alice_message \<and>
      isDirectConversation example_env fc \<and> \<not> isMe example_env fc)"
    by (simp add: example_defs more_defs)
  have resolved: "getConversationForTargetMessage example_env ''conv-alice'' (targetTimestamp heart)
      (collab message_world) = Some (ex_conversation ''group-1'')"
    by (simp add: example_defs more_defs)
  have author'': "truthy (map_option conv_id (lookupOrCreate unknown_conversation_env
      (targetAuthorUuid heart) (collab message_world))) = Some ''conv-alice''"
    by (simp add: model_defs example_defs more_defs)
  have plain'': "findMessage unknown_conversation_env (targetTimestamp heart) ''conv-alice''
      (collab message_world) = Some alice_message"
    by (simp add: model_defs example_defs more_defs)
  have not_story'': "\<not> (\<exists>fc. getConversation unknown_conversation_env (conversationId placeholder)
        (collab message_world) = Some fc \<and> isStory unknown_conversation_env alice_message \<and>
      isDirectConversation unknown_conversation_env fc \<and> \<not> isMe unknown_conversation_env fc)"
    by (simp add: example_defs more_defs)
  have unresolved: "getConversationForTargetMessage unknown_conversation_env ''conv-alice''
      (targetTimestamp heart) (collab message_world) = None"
    by (simp add: example_defs more_defs)
  have a: "filter isQueueJob (newEvents story_world
        (snd (onReaction example_env heart placeholder story_world)))
      = [QueueJob (ex_conversation ''conv-bob'') ''Reactions.onReaction'']"
    using onReaction_target_conversation [OF author story, of placeholder] sender by blast
  have b: "filter isQueueJob (newEvents message_world
        (snd (onReaction example_env heart placeholder message_world)))
      = [QueueJob (ex_conversation ''group-1'') ''Reactions.onReaction'']"
    using onReaction_target_conversation [OF author' plain, of placeholder] not_story resolved
    by blast
  have c: "onReaction unknown_conversation_env heart placeholder message_world =
     (Resolved,
      message_world\<lparr>trace := trace message_world @
        [LookupOrCreate (targetAuthorUuid heart) ''Reactions.onReaction'',
         ControllerGet (conversationId placeholder),
         GetMessagesBySentAt (targetTimestamp heart),
         GetConversationForTargetMessage ''conv-alice'' (targetTimestamp heart),
         LogInfo ''No target conversation for reaction'']\<rparr>)"
    and c': "reactions (snd (onReaction unknown_conversation_env heart placeholder message_world))
      = reactions message_world"
    using onReaction_target_conversation [OF author'' plain'', of placeholder] not_story'' unresolved
    by blast+
  have not_story_plain: "\<not> isStory example_env alice_message"
    by (simp add: example_defs)
  show ?thesis
    using a b c c' author story sender plain not_story_plain resolved unresolved
    by (simp add: example_defs more_defs)
qed

text \<open>
  C4 as stated fails where it says the reaction is dropped: after "No target conversation
  for reaction" the reaction is still in the collection, and the next \<open>forMessage\<close> for
  the target message hands it out.
\<close>

theorem no_target_conversation_keeps_reaction_counterexample:
  "heart \<in> set (reactions message_world) \<and>
   trace (snd (onReaction unknown_conversation_env heart placeholder message_world)) =
     [LookupOrCreate ''alice'' ''Reactions.onReaction'', ControllerGet ''conv-bob'',
      GetMessagesBySentAt 1000, GetConversationForTargetMessage ''conv-alice'' 1000,
      LogInfo ''No target conversation for reaction''] \<and>
   heart \<in> set (reactions
     (snd (onReaction unknown_conversation_env heart placeholder message_world))) \<and>
   fst (forMessage unknown_conversation_env alice_message
          (snd (onReaction unknown_conversation_env heart placeholder message_world))) = [heart]"
  by (simp add: model_defs example_defs more_defs)




text \<open>
  C6. When \<^verbatim>\<open>lookupOrCreate\<close> gives no conversation for the target author, or one whose
  id is empty, \<open>onReaction\<close> resolves, and all it does is the lookup and one
  \<^verbatim>\<open>log.error\<close>: no message is looked up, no job is queued, the collection and the
  collaborators' state are unchanged.
\<close>

theorem onReaction_unresolvable_author:
  assumes "truthy (map_option conv_id (lookupOrCreate env (targetAuthorUuid r) (collab w))) = None"
  shows "onReaction env r g w =
           (Resolved,
            w\<lparr>trace := trace w @
                 [LookupOrCreate (targetAuthorUuid r) ''Reactions.onReaction'',
                  LogError ''Reactions.onReaction error:''
                    (Error ''onReaction: No conversationId returned from lookupOrCreate!'')]\<rparr>)"
  using assms by (simp add: onReaction_def onReaction_try_def emit_def Let_def)

theorem onReaction_unresolvable_author_witness:
  "truthy (map_option conv_id (lookupOrCreate example_env (targetAuthorUuid orphan)
      (collab story_world))) = None \<and>
   onReaction example_env orphan placeholder story_world =
     (Resolved,
      story_world\<lparr>trace :=
        [LookupOrCreate [] ''Reactions.onReaction'',
         LogError ''Reactions.onReaction error:''
           (Error ''onReaction: No conversationId returned from lookupOrCreate!'')]\<rparr>)"
proof -
  have unknown: "truthy (map_option conv_id (lookupOrCreate example_env (targetAuthorUuid orphan)
      (collab story_world))) = None"
    by (simp add: model_defs example_defs)
  show ?thesis
    using onReaction_unresolvable_author [OF unknown, of placeholder] unknown
    by (simp add: example_defs more_defs)
qed

text \<open>
  C7. When the target author resolves and the first lookup finds no message, \<open>onReaction\<close>
  resolves after \<^verbatim>\<open>log.info('No message for reaction', ...)\<close>: no job is queued,
  \<open>handleReaction\<close> is not called, the collaborators' state is unchanged, and the
  collection is unchanged, so a reaction held there is still held.
\<close>

theorem onReaction_no_message:
  assumes "truthy (map_option conv_id (lookupOrCreate env (targetAuthorUuid r) (collab w))) = Some tid"
    and "findMessage env (targetTimestamp r) tid (collab w) = None"
  shows "onReaction env r g w =
           (Resolved,
            w\<lparr>trace := trace w @
                 [LookupOrCreate (targetAuthorUuid r) ''Reactions.onReaction'',
                  ControllerGet (conversationId g),
                  GetMessagesBySentAt (targetTimestamp r),
                  LogInfo ''No message for reaction'']\<rparr>) \<and>
         reactions (snd (onReaction env r g w)) = reactions w \<and>
         collab (snd (onReaction env r g w)) = collab w \<and>
         filter isQueueJob (newEvents w (snd (onReaction env r g w))) = [] \<and>
         filter isHandleReaction (newEvents w (snd (onReaction env r g w))) = []"
  using assms by (simp add: onReaction_def onReaction_try_def emit_def emits_def newEvents_def Let_def)
theorem onReaction_no_message_witness:
  "truthy (map_option conv_id (lookupOrCreate example_env (targetAuthorUuid thumb)
      (collab story_world))) = Some ''conv-carol'' \<and>
   findMessage example_env (targetTimestamp thumb) ''conv-carol'' (collab story_world) = None \<and>
   thumb \<in> set (reactions (snd (onReaction example_env thumb placeholder story_world))) \<and>
   collab (snd (onReaction example_env thumb placeholder story_world)) = [alice_story] \<and>
   trace (snd (onReaction example_env thumb placeholder story_world)) =
     [LookupOrCreate ''carol'' ''Reactions.onReaction'', ControllerGet ''conv-bob'',
      GetMessagesBySentAt 1000, LogInfo ''No message for reaction'']"
proof -
  have author: "truthy (map_option conv_id (lookupOrCreate example_env (targetAuthorUuid thumb)
      (collab story_world))) = Some ''conv-carol''"
    by (simp add: model_defs example_defs more_defs)
  have missing: "findMessage example_env (targetTimestamp thumb) ''conv-carol'' (collab story_world) = None"
    by (simp add: model_defs example_defs more_defs)
  show ?thesis
    using onReaction_no_message [OF author missing, of placeholder] author missing
    by (simp add: example_defs more_defs)
qed
text \<open>
  C8, as amended. \<open>onReaction\<close> always resolves. Once a job is queued: if the message is
  missing when the job starts, the job returns without logging an error and without
  calling \<open>handleReaction\<close>. If the message is found and a step of the job throws
  (\<^verbatim>\<open>getCheckedUuid\<close>, the save or \<^verbatim>\<open>hydrateStoryContext\<close> for a story, \<open>handleReaction\<close> for
  any message), the last thing \<open>onReaction\<close> does is to log that error from its
  \<^verbatim>\<open>catch\<close>; when the save and \<^verbatim>\<open>hydrateStoryContext\<close> both fail, one of the two errors
  is logged. A failure before \<open>handleReaction\<close> means \<open>handleReaction\<close> is not called. In
  every one of these cases the collection is as the wait in the queue left it:
  \<open>onReaction\<close> does not remove the reaction.
\<close>

theorem onReaction_apply_failure:
  fixes env :: "'x env" and r :: reaction and g :: message and w :: "'x world"
    and conv :: conversation
  defines "w' \<equiv> snd (onReaction env r g w)"
    and "rs \<equiv> fst (whileQueued env conv (reactions w, collab w))"
    and "x \<equiv> snd (whileQueued env conv (reactions w, collab w))"
    and "g1 \<equiv> \<lambda>m. g\<lparr> expireTimer := conv_expireTimer conv,
                          storyId := Some (msg_id m),
                          storyReaction :=
                            Some \<lparr> sr_emoji = emoji r, sr_targetAuthorUuid = targetAuthorUuid r,
                                   sr_targetTimestamp = targetTimestamp r \<rparr> \<rparr>"
  shows
   "fst (onReaction env r g w) = Resolved \<and>
    (truthy (map_option conv_id (lookupOrCreate env (targetAuthorUuid r) (collab w))) = Some tid \<and>
     findMessage env (targetTimestamp r) tid (collab w) = Some check \<and>
     resolveTargetConversation env (getConversation env (conversationId g) (collab w)) check tid
       (targetTimestamp r) (collab w) = Some conv \<longrightarrow>
       (findMessage env (targetTimestamp r) tid x = None \<longrightarrow>
          reactions w' = rs \<and> collab w' = x \<and>
          \<not> list_ex isLogError (newEvents w w') \<and>
          filter isHandleReaction (newEvents w w') = []) \<and>
       (\<forall>m. findMessage env (targetTimestamp r) tid x = Some m \<longrightarrow>
          (\<forall>e. isStory env m \<and> getCheckedUuid env x = Inl e \<longrightarrow>
             last (trace w') = LogError ''Reactions.onReaction error:'' e \<and> reactions w' = rs \<and>
             filter isHandleReaction (newEvents w w') = []) \<and>
          (\<forall>u e. isStory env m \<and> getCheckedUuid env x = Inr u \<and>
                 fst (saveMessage env (g1 m) u True x) = Some e \<longrightarrow>
             isLogError (last (trace w')) \<and> reactions w' = rs \<and>
             filter isHandleReaction (newEvents w w') = [] \<and>
             (\<forall>g2. hydrateStoryContext env (g1 m) m x = Inr g2 \<longrightarrow>
                last (trace w') = LogError ''Reactions.onReaction error:'' e)) \<and>
          (\<forall>u e. isStory env m \<and> getCheckedUuid env x = Inr u \<and>
                 fst (saveMessage env (g1 m) u True x) = None \<and>
                 hydrateStoryContext env (g1 m) m x = Inl e \<longrightarrow>
             last (trace w') = LogError ''Reactions.onReaction error:'' e \<and> reactions w' = rs \<and>
             filter isHandleReaction (newEvents w w') = []) \<and>
          (\<forall>e. \<not> isStory env m \<and> fst (handleReaction env m r x) = Some e \<longrightarrow>
             last (trace w') = LogError ''Reactions.onReaction error:'' e \<and> reactions w' = rs) \<and>
          (\<forall>u g2 e. isStory env m \<and> getCheckedUuid env x = Inr u \<and>
                 fst (saveMessage env (g1 m) u True x) = None \<and>
                 hydrateStoryContext env (g1 m) m x = Inr g2 \<and>
                 fst (handleReaction env m r
                        (addSingleMessage env conv g2 (snd (saveMessage env (g1 m) u True x))))
                   = Some e \<longrightarrow>
             last (trace w') = LogError ''Reactions.onReaction error:'' e \<and> reactions w' = rs)) \<and>
       (list_ex isLogError (newEvents w w') \<longrightarrow> reactions w' = rs))"
proof (intro conjI impI)
  show "fst (onReaction env r g w) = Resolved"
    by (simp add: onReaction_settles)
next
  assume pre: "truthy (map_option conv_id (lookupOrCreate env (targetAuthorUuid r) (collab w))) = Some tid \<and>
    findMessage env (targetTimestamp r) tid (collab w) = Some check \<and>
    resolveTargetConversation env (getConversation env (conversationId g) (collab w)) check tid
      (targetTimestamp r) (collab w) = Some conv"
  assume "findMessage env (targetTimestamp r) tid x = None"
  then show "reactions w' = rs" and "collab w' = x"
    and "\<not> list_ex isLogError (newEvents w w')"
    and "filter isHandleReaction (newEvents w w') = []"
    using pre unfolding w'_def rs_def x_def
    by (simp_all add: onReaction_settles onReaction_try_enqueued applyJob_missing newEvents_def)
next
  assume pre: "truthy (map_option conv_id (lookupOrCreate env (targetAuthorUuid r) (collab w))) = Some tid \<and>
    findMessage env (targetTimestamp r) tid (collab w) = Some check \<and>
    resolveTargetConversation env (getConversation env (conversationId g) (collab w)) check tid
      (targetTimestamp r) (collab w) = Some conv"
  show "\<forall>m. findMessage env (targetTimestamp r) tid x = Some m \<longrightarrow>
          (\<forall>e. isStory env m \<and> getCheckedUuid env x = Inl e \<longrightarrow>
             last (trace w') = LogError ''Reactions.onReaction error:'' e \<and> reactions w' = rs \<and>
             filter isHandleReaction (newEvents w w') = []) \<and>
          (\<forall>u e. isStory env m \<and> getCheckedUuid env x = Inr u \<and>
                 fst (saveMessage env (g1 m) u True x) = Some e \<longrightarrow>
             isLogError (last (trace w')) \<and> reactions w' = rs \<and>
             filter isHandleReaction (newEvents w w') = [] \<and>
             (\<forall>g2. hydrateStoryContext env (g1 m) m x = Inr g2 \<longrightarrow>
                last (trace w') = LogError ''Reactions.onReaction error:'' e)) \<and>
          (\<forall>u e. isStory env m \<and> getCheckedUuid env x = Inr u \<and>
                 fst (saveMessage env (g1 m) u True x) = None \<and>
                 hydrateStoryContext env (g1 m) m x = Inl e \<longrightarrow>
             last (trace w') = LogError ''Reactions.onReaction error:'' e \<and> reactions w' = rs \<and>
             filter isHandleReaction (newEvents w w') = []) \<and>
          (\<forall>e. \<not> isStory env m \<and> fst (handleReaction env m r x) = Some e \<longrightarrow>
             last (trace w') = LogError ''Reactions.onReaction error:'' e \<and> reactions w' = rs) \<and>
          (\<forall>u g2 e. isStory env m \<and> getCheckedUuid env x = Inr u \<and>
                 fst (saveMessage env (g1 m) u True x) = None \<and>
                 hydrateStoryContext env (g1 m) m x = Inr g2 \<and>
                 fst (handleReaction env m r
                        (addSingleMessage env conv g2 (snd (saveMessage env (g1 m) u True x))))
                   = Some e \<longrightarrow>
             last (trace w') = LogError ''Reactions.onReaction error:'' e \<and> reactions w' = rs)"
  proof (intro allI impI)
    fix m
    assume found: "findMessage env (targetTimestamp r) tid x = Some m"
    have g1m: "setStoryReaction r conv m g = g1 m"
      by (simp add: setStoryReaction_def g1_def)
    note run = onReaction_settles onReaction_try_enqueued applyJob_found storyBranch_def g1m
      emit_def emits_def newEvents_def Let_def
    show "(\<forall>e. isStory env m \<and> getCheckedUuid env x = Inl e \<longrightarrow>
             last (trace w') = LogError ''Reactions.onReaction error:'' e \<and> reactions w' = rs \<and>
             filter isHandleReaction (newEvents w w') = []) \<and>
          (\<forall>u e. isStory env m \<and> getCheckedUuid env x = Inr u \<and>
                 fst (saveMessage env (g1 m) u True x) = Some e \<longrightarrow>
             isLogError (last (trace w')) \<and> reactions w' = rs \<and>
             filter isHandleReaction (newEvents w w') = [] \<and>
             (\<forall>g2. hydrateStoryContext env (g1 m) m x = Inr g2 \<longrightarrow>
                last (trace w') = LogError ''Reactions.onReaction error:'' e)) \<and>
          (\<forall>u e. isStory env m \<and> getCheckedUuid env x = Inr u \<and>
                 fst (saveMessage env (g1 m) u True x) = None \<and>
                 hydrateStoryContext env (g1 m) m x = Inl e \<longrightarrow>
             last (trace w') = LogError ''Reactions.onReaction error:'' e \<and> reactions w' = rs \<and>
             filter isHandleReaction (newEvents w w') = []) \<and>
          (\<forall>e. \<not> isStory env m \<and> fst (handleReaction env m r x) = Some e \<longrightarrow>
             last (trace w') = LogError ''Reactions.onReaction error:'' e \<and> reactions w' = rs) \<and>
          (\<forall>u g2 e. isStory env m \<and> getCheckedUuid env x = Inr u \<and>
                 fst (saveMessage env (g1 m) u True x) = None \<and>
                 hydrateStoryContext env (g1 m) m x = Inr g2 \<and>
                 fst (handleReaction env m r
                        (addSingleMessage env conv g2 (snd (saveMessage env (g1 m) u True x))))
                   = Some e \<longrightarrow>
             last (trace w') = LogError ''Reactions.onReaction error:'' e \<and> reactions w' = rs)"
    proof (intro conjI allI impI)
      fix e
      assume "isStory env m \<and> getCheckedUuid env x = Inl e"
      then show "last (trace w') = LogError ''Reactions.onReaction error:'' e"
        and "reactions w' = rs"
        and "filter isHandleReaction (newEvents w w') = []"
        using pre found unfolding w'_def rs_def x_def by (simp_all add: run)
    next
      fix u e
      assume "isStory env m \<and> getCheckedUuid env x = Inr u \<and>
        fst (saveMessage env (g1 m) u True x) = Some e"
      then show "isLogError (last (trace w'))"
        and "reactions w' = rs"
        and "filter isHandleReaction (newEvents w w') = []"
        using pre found unfolding w'_def rs_def x_def by (simp_all add: run)
    next
      fix u e g2
      assume "isStory env m \<and> getCheckedUuid env x = Inr u \<and>
        fst (saveMessage env (g1 m) u True x) = Some e"
        and "hydrateStoryContext env (g1 m) m x = Inr g2"
      then show "last (trace w') = LogError ''Reactions.onReaction error:'' e"
        using pre found unfolding w'_def rs_def x_def by (simp add: run)
    next
      fix u e
      assume "isStory env m \<and> getCheckedUuid env x = Inr u \<and>
        fst (saveMessage env (g1 m) u True x) = None \<and>
        hydrateStoryContext env (g1 m) m x = Inl e"
      then show "last (trace w') = LogError ''Reactions.onReaction error:'' e"
        and "reactions w' = rs"
        and "filter isHandleReaction (newEvents w w') = []"
        using pre found unfolding w'_def rs_def x_def by (simp_all add: run)
    next
      fix e
      assume "\<not> isStory env m \<and> fst (handleReaction env m r x) = Some e"
      then show "last (trace w') = LogError ''Reactions.onReaction error:'' e" and "reactions w' = rs"
        using pre found unfolding w'_def rs_def x_def by (simp_all add: run)
    next
      fix u g2 e
      assume "isStory env m \<and> getCheckedUuid env x = Inr u \<and>
        fst (saveMessage env (g1 m) u True x) = None \<and>
        hydrateStoryContext env (g1 m) m x = Inr g2 \<and>
        fst (handleReaction env m r
               (addSingleMessage env conv g2 (snd (saveMessage env (g1 m) u True x)))) = Some e"
      then show "last (trace w') = LogError ''Reactions.onReaction error:'' e" and "reactions w' = rs"
        using pre found unfolding w'_def rs_def x_def by (simp_all add: run)
    qed
  qed
next
  assume pre: "truthy (map_option conv_id (lookupOrCreate env (targetAuthorUuid r) (collab w))) = Some tid \<and>
    findMessage env (targetTimestamp r) tid (collab w) = Some check \<and>
    resolveTargetConversation env (getConversation env (conversationId g) (collab w)) check tid
      (targetTimestamp r) (collab w) = Some conv"
  define wq where
    "wq = w\<lparr> trace := trace w @
                [LookupOrCreate (targetAuthorUuid r) ''Reactions.onReaction'',
                 ControllerGet (conversationId g), GetMessagesBySentAt (targetTimestamp r)] @
                (if storyInDirectConversation env (getConversation env (conversationId g) (collab w)) check
                 then [] else [GetConversationForTargetMessage tid (targetTimestamp r)]) @
                [QueueJob conv ''Reactions.onReaction''],
              reactions := fst (whileQueued env conv (reactions w, collab w)),
              collab := snd (whileQueued env conv (reactions w, collab w)) \<rparr>"
  have body: "onReaction_try env r g w = applyJob env r g conv tid wq"
    unfolding wq_def using pre by (simp add: onReaction_try_enqueued)
  obtain es where es: "trace (snd (applyJob env r g conv tid wq)) = trace wq @ es"
      "filter isLogError es = []"
    using applyJob_events [of env r g conv tid wq] by blast
  assume logged: "list_ex isLogError (newEvents w w')"
  show "reactions w' = rs"
  proof (cases "fst (applyJob env r g conv tid wq)")
    case None
    with es have "newEvents w w' = drop (length (trace w)) (trace wq) @ es"
      by (simp add: w'_def onReaction_settles body newEvents_def wq_def)
    with logged es(2) have False
      by (auto simp add: wq_def list_ex_iff filter_empty_conv split: if_splits)
    then show ?thesis ..
  next
    case (Some e)
    from applyJob_thrown [OF Some] have "reactions (snd (applyJob env r g conv tid wq)) = reactions wq" .
    with Some show ?thesis
      by (simp add: w'_def rs_def onReaction_settles body emit_def wq_def)
  qed
qed

theorem onReaction_apply_failure_witness:
  "fst (onReaction vanishing_env heart placeholder message_world) = Resolved \<and>
   truthy (map_option conv_id (lookupOrCreate vanishing_env (targetAuthorUuid heart) (collab message_world))) = Some ''conv-alice'' \<and>
   findMessage vanishing_env (targetTimestamp heart) ''conv-alice'' (collab message_world) = Some alice_message \<and>
   resolveTargetConversation vanishing_env (getConversation vanishing_env (conversationId placeholder) (collab message_world))
     alice_message ''conv-alice'' (targetTimestamp heart) (collab message_world) = Some (ex_conversation ''group-1'') \<and>
   findMessage vanishing_env (targetTimestamp heart) ''conv-alice'' (snd (whileQueued vanishing_env (ex_conversation ''group-1'') (reactions message_world, collab message_world))) = None \<and>
   reactions (snd (onReaction vanishing_env heart placeholder message_world)) = [heart, thumb] \<and>
   \<not> list_ex isLogError (newEvents message_world (snd (onReaction vanishing_env heart placeholder message_world))) \<and>
   fst (onReaction no_uuid_env heart placeholder story_world) = Resolved \<and>
   truthy (map_option conv_id (lookupOrCreate no_uuid_env (targetAuthorUuid heart) (collab story_world))) = Some ''conv-alice'' \<and>
   findMessage no_uuid_env (targetTimestamp heart) ''conv-alice'' (collab story_world) = Some alice_story \<and>
   resolveTargetConversation no_uuid_env (getConversation no_uuid_env (conversationId placeholder) (collab story_world))
     alice_story ''conv-alice'' (targetTimestamp heart) (collab story_world) = Some (ex_conversation ''conv-bob'') \<and>
   findMessage no_uuid_env (targetTimestamp heart) ''conv-alice'' (snd (whileQueued no_uuid_env (ex_conversation ''conv-bob'') (reactions story_world, collab story_world))) = Some alice_story \<and>
   isStory no_uuid_env alice_story \<and> getCheckedUuid no_uuid_env (snd (whileQueued no_uuid_env (ex_conversation ''conv-bob'') (reactions story_world, collab story_world))) = Inl (Error ''no uuid'') \<and>
   last (trace (snd (onReaction no_uuid_env heart placeholder story_world))) = LogError ''Reactions.onReaction error:'' (Error ''no uuid'') \<and>
   reactions (snd (onReaction no_uuid_env heart placeholder story_world)) = [heart, thumb] \<and>
   fst (onReaction failing_store_env heart placeholder story_world) = Resolved \<and>
   truthy (map_option conv_id (lookupOrCreate failing_store_env (targetAuthorUuid heart) (collab story_world))) = Some ''conv-alice'' \<and>
   findMessage failing_store_env (targetTimestamp heart) ''conv-alice'' (collab story_world) = Some alice_story \<and>
   resolveTargetConversation failing_store_env (getConversation failing_store_env (conversationId placeholder) (collab story_world))
     alice_story ''conv-alice'' (targetTimestamp heart) (collab story_world) = Some (ex_conversation ''conv-bob'') \<and>
   findMessage failing_store_env (targetTimestamp heart) ''conv-alice'' (snd (whileQueued failing_store_env (ex_conversation ''conv-bob'') (reactions story_world, collab story_world))) = Some alice_story \<and>
   isStory failing_store_env alice_story \<and> getCheckedUuid failing_store_env (snd (whileQueued failing_store_env (ex_conversation ''conv-bob'') (reactions story_world, collab story_world))) = Inr ''me'' \<and>
   fst (saveMessage failing_store_env
      (placeholder\<lparr> expireTimer := conv_expireTimer (ex_conversation ''conv-bob''), storyId := Some (msg_id alice_story),
        storyReaction := Some \<lparr> sr_emoji = emoji heart, sr_targetAuthorUuid = targetAuthorUuid heart,
                                sr_targetTimestamp = targetTimestamp heart \<rparr> \<rparr>)
      ''me'' True (snd (whileQueued failing_store_env (ex_conversation ''conv-bob'') (reactions story_world, collab story_world)))) = Some (Error ''write failed'') \<and>
   hydrateStoryContext failing_store_env
      (placeholder\<lparr> expireTimer := conv_expireTimer (ex_conversation ''conv-bob''), storyId := Some (msg_id alice_story),
        storyReaction := Some \<lparr> sr_emoji = emoji heart, sr_targetAuthorUuid = targetAuthorUuid heart,
                                sr_targetTimestamp = targetTimestamp heart \<rparr> \<rparr>)
      alice_story (snd (whileQueued failing_store_env (ex_conversation ''conv-bob'') (reactions story_world, collab story_world))) =
     Inr (placeholder\<lparr> expireTimer := conv_expireTimer (ex_conversation ''conv-bob''), storyId := Some (msg_id alice_story),
        storyReaction := Some \<lparr> sr_emoji = emoji heart, sr_targetAuthorUuid = targetAuthorUuid heart,
                                sr_targetTimestamp = targetTimestamp heart \<rparr> \<rparr>) \<and>
   last (trace (snd (onReaction failing_store_env heart placeholder story_world))) = LogError ''Reactions.onReaction error:'' (Error ''write failed'') \<and>
   reactions (snd (onReaction failing_store_env heart placeholder story_world)) = [heart, thumb] \<and>
   fst (onReaction failing_hydrate_env heart placeholder story_world) = Resolved \<and>
   truthy (map_option conv_id (lookupOrCreate failing_hydrate_env (targetAuthorUuid heart) (collab story_world))) = Some ''conv-alice'' \<and>
   findMessage failing_hydrate_env (targetTimestamp heart) ''conv-alice'' (collab story_world) = Some alice_story \<and>
   resolveTargetConversation failing_hydrate_env (getConversation failing_hydrate_env (conversationId placeholder) (collab story_world))
     alice_story ''conv-alice'' (targetTimestamp heart) (collab story_world) = Some (ex_conversation ''conv-bob'') \<and>
   findMessage failing_hydrate_env (targetTimestamp heart) ''conv-alice'' (snd (whileQueued failing_hydrate_env (ex_conversation ''conv-bob'') (reactions story_world, collab story_world))) = Some alice_story \<and>
   isStory failing_hydrate_env alice_story \<and> getCheckedUuid failing_hydrate_env (snd (whileQueued failing_hydrate_env (ex_conversation ''conv-bob'') (reactions story_world, collab story_world))) = Inr ''me'' \<and>
   fst (saveMessage failing_hydrate_env
      (placeholder\<lparr> expireTimer := conv_expireTimer (ex_conversation ''conv-bob''), storyId := Some (msg_id alice_story),
        storyReaction := Some \<lparr> sr_emoji = emoji heart, sr_targetAuthorUuid = targetAuthorUuid heart,
                                sr_targetTimestamp = targetTimestamp heart \<rparr> \<rparr>)
      ''me'' True (snd (whileQueued failing_hydrate_env (ex_conversation ''conv-bob'') (reactions story_world, collab story_world)))) = None \<and>
   hydrateStoryContext failing_hydrate_env
      (placeholder\<lparr> expireTimer := conv_expireTimer (ex_conversation ''conv-bob''), storyId := Some (msg_id alice_story),
        storyReaction := Some \<lparr> sr_emoji = emoji heart, sr_targetAuthorUuid = targetAuthorUuid heart,
                                sr_targetTimestamp = targetTimestamp heart \<rparr> \<rparr>)
      alice_story (snd (whileQueued failing_hydrate_env (ex_conversation ''conv-bob'') (reactions story_world, collab story_world))) = Inl (Error ''hydrate failed'') \<and>
   last (trace (snd (onReaction failing_hydrate_env heart placeholder story_world))) = LogError ''Reactions.onReaction error:'' (Error ''hydrate failed'') \<and>
   reactions (snd (onReaction failing_hydrate_env heart placeholder story_world)) = [heart, thumb] \<and>
   filter isHandleReaction (newEvents story_world (snd (onReaction failing_hydrate_env heart placeholder story_world))) = [] \<and>
   fst (onReaction failing_attach_env heart placeholder message_world) = Resolved \<and>
   truthy (map_option conv_id (lookupOrCreate failing_attach_env (targetAuthorUuid heart) (collab message_world))) = Some ''conv-alice'' \<and>
   findMessage failing_attach_env (targetTimestamp heart) ''conv-alice'' (collab message_world) = Some alice_message \<and>
   resolveTargetConversation failing_attach_env (getConversation failing_attach_env (conversationId placeholder) (collab message_world))
     alice_message ''conv-alice'' (targetTimestamp heart) (collab message_world) = Some (ex_conversation ''group-1'') \<and>
   findMessage failing_attach_env (targetTimestamp heart) ''conv-alice'' (snd (whileQueued failing_attach_env (ex_conversation ''group-1'') (reactions message_world, collab message_world))) = Some alice_message \<and>
   \<not> isStory failing_attach_env alice_message \<and>
   fst (handleReaction failing_attach_env alice_message heart (snd (whileQueued failing_attach_env (ex_conversation ''group-1'') (reactions message_world, collab message_world)))) = Some (Error ''attach failed'') \<and>
   last (trace (snd (onReaction failing_attach_env heart placeholder message_world))) = LogError ''Reactions.onReaction error:'' (Error ''attach failed'') \<and>
   reactions (snd (onReaction failing_attach_env heart placeholder message_world)) = [heart, thumb] \<and>
   fst (onReaction failing_attach_env heart placeholder story_world) = Resolved \<and>
   truthy (map_option conv_id (lookupOrCreate failing_attach_env (targetAuthorUuid heart) (collab story_world))) = Some ''conv-alice'' \<and>
   findMessage failing_attach_env (targetTimestamp heart) ''conv-alice'' (collab story_world) = Some alice_story \<and>
   resolveTargetConversation failing_attach_env (getConversation failing_attach_env (conversationId placeholder) (collab story_world))
     alice_story ''conv-alice'' (targetTimestamp heart) (collab story_world) = Some (ex_conversation ''conv-bob'') \<and>
   findMessage failing_attach_env (targetTimestamp heart) ''conv-alice'' (snd (whileQueued failing_attach_env (ex_conversation ''conv-bob'') (reactions story_world, collab story_world))) = Some alice_story \<and>
   isStory failing_attach_env alice_story \<and> getCheckedUuid failing_attach_env (snd (whileQueued failing_attach_env (ex_conversation ''conv-bob'') (reactions story_world, collab story_world))) = Inr ''me'' \<and>
   fst (saveMessage failing_attach_env
      (placeholder\<lparr> expireTimer := conv_expireTimer (ex_conversation ''conv-bob''), storyId := Some (msg_id alice_story),
        storyReaction := Some \<lparr> sr_emoji = emoji heart, sr_targetAuthorUuid = targetAuthorUuid heart,
                                sr_targetTimestamp = targetTimestamp heart \<rparr> \<rparr>)
      ''me'' True (snd (whileQueued failing_attach_env (ex_conversation ''conv-bob'') (reactions story_world, collab story_world)))) = None \<and>
   hydrateStoryContext failing_attach_env
      (placeholder\<lparr> expireTimer := conv_expireTimer (ex_conversation ''conv-bob''), storyId := Some (msg_id alice_story),
        storyReaction := Some \<lparr> sr_emoji = emoji heart, sr_targetAuthorUuid = targetAuthorUuid heart,
                                sr_targetTimestamp = targetTimestamp heart \<rparr> \<rparr>)
      alice_story (snd (whileQueued failing_attach_env (ex_conversation ''conv-bob'') (reactions story_world, collab story_world))) =
     Inr (placeholder\<lparr> expireTimer := conv_expireTimer (ex_conversation ''conv-bob''), storyId := Some (msg_id alice_story),
        storyReaction := Some \<lparr> sr_emoji = emoji heart, sr_targetAuthorUuid = targetAuthorUuid heart,
                                sr_targetTimestamp = targetTimestamp heart \<rparr> \<rparr>) \<and>
   fst (handleReaction failing_attach_env alice_story heart
      (addSingleMessage failing_attach_env (ex_conversation ''conv-bob'')
         (placeholder\<lparr> expireTimer := conv_expireTimer (ex_conversation ''conv-bob''), storyId := Some (msg_id alice_story),
        storyReaction := Some \<lparr> sr_emoji = emoji heart, sr_targetAuthorUuid = targetAuthorUuid heart,
                                sr_targetTimestamp = targetTimestamp heart \<rparr> \<rparr>)
         (snd (saveMessage failing_attach_env
            (placeholder\<lparr> expireTimer := conv_expireTimer (ex_conversation ''conv-bob''), storyId := Some (msg_id alice_story),
        storyReaction := Some \<lparr> sr_emoji = emoji heart, sr_targetAuthorUuid = targetAuthorUuid heart,
                                sr_targetTimestamp = targetTimestamp heart \<rparr> \<rparr>)
            ''me'' True (snd (whileQueued failing_attach_env (ex_conversation ''conv-bob'') (reactions story_world, collab story_world))))))) = Some (Error ''attach failed'') \<and>
   last (trace (snd (onReaction failing_attach_env heart placeholder story_world))) = LogError ''Reactions.onReaction error:'' (Error ''attach failed'') \<and>
   reactions (snd (onReaction failing_attach_env heart placeholder story_world)) = [heart, thumb]"
proof -
  have pre_vanish: "truthy (map_option conv_id (lookupOrCreate vanishing_env (targetAuthorUuid heart) (collab message_world))) = Some ''conv-alice'' \<and>
   findMessage vanishing_env (targetTimestamp heart) ''conv-alice'' (collab message_world) = Some alice_message \<and>
   resolveTargetConversation vanishing_env (getConversation vanishing_env (conversationId placeholder) (collab message_world))
     alice_message ''conv-alice'' (targetTimestamp heart) (collab message_world) = Some (ex_conversation ''group-1'')"
    by (simp add: model_defs example_defs more_defs)
  have hyp_vanish: "findMessage vanishing_env (targetTimestamp heart) ''conv-alice'' (snd (whileQueued vanishing_env (ex_conversation ''group-1'') (reactions message_world, collab message_world))) = None"
    by (simp add: model_defs example_defs more_defs)
  have kept_vanish: "fst (whileQueued vanishing_env (ex_conversation ''group-1'') (reactions message_world, collab message_world)) = [heart, thumb]"
    by (simp add: example_defs more_defs)
  note thm_vanish = onReaction_apply_failure [where env = vanishing_env and r = heart and g = placeholder
      and w = message_world and tid = "''conv-alice''" and check = alice_message and conv = "ex_conversation ''group-1''"]
  have res_vanish: "fst (onReaction vanishing_env heart placeholder message_world) = Resolved"
    using thm_vanish by blast
  have concl_vanish: "reactions (snd (onReaction vanishing_env heart placeholder message_world)) = [heart, thumb] \<and>
   \<not> list_ex isLogError (newEvents message_world (snd (onReaction vanishing_env heart placeholder message_world)))"
    using thm_vanish pre_vanish hyp_vanish kept_vanish by simp
  have pre_nouuid: "truthy (map_option conv_id (lookupOrCreate no_uuid_env (targetAuthorUuid heart) (collab story_world))) = Some ''conv-alice'' \<and>
   findMessage no_uuid_env (targetTimestamp heart) ''conv-alice'' (collab story_world) = Some alice_story \<and>
   resolveTargetConversation no_uuid_env (getConversation no_uuid_env (conversationId placeholder) (collab story_world))
     alice_story ''conv-alice'' (targetTimestamp heart) (collab story_world) = Some (ex_conversation ''conv-bob'')"
    by (simp add: model_defs example_defs more_defs)
  have hyp_nouuid: "findMessage no_uuid_env (targetTimestamp heart) ''conv-alice'' (snd (whileQueued no_uuid_env (ex_conversation ''conv-bob'') (reactions story_world, collab story_world))) = Some alice_story \<and>
   isStory no_uuid_env alice_story \<and> getCheckedUuid no_uuid_env (snd (whileQueued no_uuid_env (ex_conversation ''conv-bob'') (reactions story_world, collab story_world))) = Inl (Error ''no uuid'')"
    by (simp add: model_defs example_defs more_defs)
  have kept_nouuid: "fst (whileQueued no_uuid_env (ex_conversation ''conv-bob'') (reactions story_world, collab story_world)) = [heart, thumb]"
    by (simp add: example_defs more_defs)
  note thm_nouuid = onReaction_apply_failure [where env = no_uuid_env and r = heart and g = placeholder
      and w = story_world and tid = "''conv-alice''" and check = alice_story and conv = "ex_conversation ''conv-bob''"]
  have res_nouuid: "fst (onReaction no_uuid_env heart placeholder story_world) = Resolved"
    using thm_nouuid by blast
  have concl_nouuid: "last (trace (snd (onReaction no_uuid_env heart placeholder story_world))) = LogError ''Reactions.onReaction error:'' (Error ''no uuid'') \<and>
   reactions (snd (onReaction no_uuid_env heart placeholder story_world)) = [heart, thumb]"
    using thm_nouuid pre_nouuid hyp_nouuid kept_nouuid by simp
  have pre_store: "truthy (map_option conv_id (lookupOrCreate failing_store_env (targetAuthorUuid heart) (collab story_world))) = Some ''conv-alice'' \<and>
   findMessage failing_store_env (targetTimestamp heart) ''conv-alice'' (collab story_world) = Some alice_story \<and>
   resolveTargetConversation failing_store_env (getConversation failing_store_env (conversationId placeholder) (collab story_world))
     alice_story ''conv-alice'' (targetTimestamp heart) (collab story_world) = Some (ex_conversation ''conv-bob'')"
    by (simp add: model_defs example_defs more_defs)
  have hyp_store: "findMessage failing_store_env (targetTimestamp heart) ''conv-alice'' (snd (whileQueued failing_store_env (ex_conversation ''conv-bob'') (reactions story_world, collab story_world))) = Some alice_story \<and>
   isStory failing_store_env alice_story \<and> getCheckedUuid failing_store_env (snd (whileQueued failing_store_env (ex_conversation ''conv-bob'') (reactions story_world, collab story_world))) = Inr ''me'' \<and>
   fst (saveMessage failing_store_env
      (placeholder\<lparr> expireTimer := conv_expireTimer (ex_conversation ''conv-bob''), storyId := Some (msg_id alice_story),
        storyReaction := Some \<lparr> sr_emoji = emoji heart, sr_targetAuthorUuid = targetAuthorUuid heart,
                                sr_targetTimestamp = targetTimestamp heart \<rparr> \<rparr>)
      ''me'' True (snd (whileQueued failing_store_env (ex_conversation ''conv-bob'') (reactions story_world, collab story_world)))) = Some (Error ''write failed'') \<and>
   hydrateStoryContext failing_store_env
      (placeholder\<lparr> expireTimer := conv_expireTimer (ex_conversation ''conv-bob''), storyId := Some (msg_id alice_story),
        storyReaction := Some \<lparr> sr_emoji = emoji heart, sr_targetAuthorUuid = targetAuthorUuid heart,
                                sr_targetTimestamp = targetTimestamp heart \<rparr> \<rparr>)
      alice_story (snd (whileQueued failing_store_env (ex_conversation ''conv-bob'') (reactions story_world, collab story_world))) =
     Inr (placeholder\<lparr> expireTimer := conv_expireTimer (ex_conversation ''conv-bob''), storyId := Some (msg_id alice_story),
        storyReaction := Some \<lparr> sr_emoji = emoji heart, sr_targetAuthorUuid = targetAuthorUuid heart,
                                sr_targetTimestamp = targetTimestamp heart \<rparr> \<rparr>)"
    by (simp add: model_defs example_defs more_defs)
  have kept_store: "fst (whileQueued failing_store_env (ex_conversation ''conv-bob'') (reactions story_world, collab story_world)) = [heart, thumb]"
    by (simp add: example_defs more_defs)
  note thm_store = onReaction_apply_failure [where env = failing_store_env and r = heart and g = placeholder
      and w = story_world and tid = "''conv-alice''" and check = alice_story and conv = "ex_conversation ''conv-bob''"]
  have res_store: "fst (onReaction failing_store_env heart placeholder story_world) = Resolved"
    using thm_store by blast
  have concl_store: "last (trace (snd (onReaction failing_store_env heart placeholder story_world))) = LogError ''Reactions.onReaction error:'' (Error ''write failed'') \<and>
   reactions (snd (onReaction failing_store_env heart placeholder story_world)) = [heart, thumb]"
    using thm_store pre_store hyp_store kept_store by simp
  have pre_hydrate: "truthy (map_option conv_id (lookupOrCreate failing_hydrate_env (targetAuthorUuid heart) (collab story_world))) = Some ''conv-alice'' \<and>
   findMessage failing_hydrate_env (targetTimestamp heart) ''conv-alice'' (collab story_world) = Some alice_story \<and>
   resolveTargetConversation failing_hydrate_env (getConversation failing_hydrate_env (conversationId placeholder) (collab story_world))
     alice_story ''conv-alice'' (targetTimestamp heart) (collab story_world) = Some (ex_conversation ''conv-bob'')"
    by (simp add: model_defs example_defs more_defs)
  have hyp_hydrate: "findMessage failing_hydrate_env (targetTimestamp heart) ''conv-alice'' (snd (whileQueued failing_hydrate_env (ex_conversation ''conv-bob'') (reactions story_world, collab story_world))) = Some alice_story \<and>
   isStory failing_hydrate_env alice_story \<and> getCheckedUuid failing_hydrate_env (snd (whileQueued failing_hydrate_env (ex_conversation ''conv-bob'') (reactions story_world, collab story_world))) = Inr ''me'' \<and>
   fst (saveMessage failing_hydrate_env
      (placeholder\<lparr> expireTimer := conv_expireTimer (ex_conversation ''conv-bob''), storyId := Some (msg_id alice_story),
        storyReaction := Some \<lparr> sr_emoji = emoji heart, sr_targetAuthorUuid = targetAuthorUuid heart,
                                sr_targetTimestamp = targetTimestamp heart \<rparr> \<rparr>)
      ''me'' True (snd (whileQueued failing_hydrate_env (ex_conversation ''conv-bob'') (reactions story_world, collab story_world)))) = None \<and>
   hydrateStoryContext failing_hydrate_env
      (placeholder\<lparr> expireTimer := conv_expireTimer (ex_conversation ''conv-bob''), storyId := Some (msg_id alice_story),
        storyReaction := Some \<lparr> sr_emoji = emoji heart, sr_targetAuthorUuid = targetAuthorUuid heart,
                                sr_targetTimestamp = targetTimestamp heart \<rparr> \<rparr>)
      alice_story (snd (whileQueued failing_hydrate_env (ex_conversation ''conv-bob'') (reactions story_world, collab story_world))) = Inl (Error ''hydrate failed'')"
    by (simp add: model_defs example_defs more_defs)
  have kept_hydrate: "fst (whileQueued failing_hydrate_env (ex_conversation ''conv-bob'') (reactions story_world, collab story_world)) = [heart, thumb]"
    by (simp add: example_defs more_defs)
  note thm_hydrate = onReaction_apply_failure [where env = failing_hydrate_env and r = heart and g = placeholder
      and w = story_world and tid = "''conv-alice''" and check = alice_story and conv = "ex_conversation ''conv-bob''"]
  have res_hydrate: "fst (onReaction failing_hydrate_env heart placeholder story_world) = Resolved"
    using thm_hydrate by blast
  have concl_hydrate: "last (trace (snd (onReaction failing_hydrate_env heart placeholder story_world))) = LogError ''Reactions.onReaction error:'' (Error ''hydrate failed'') \<and>
   reactions (snd (onReaction failing_hydrate_env heart placeholder story_world)) = [heart, thumb] \<and>
   filter isHandleReaction (newEvents story_world (snd (onReaction failing_hydrate_env heart placeholder story_world))) = []"
    using thm_hydrate pre_hydrate hyp_hydrate kept_hydrate by simp
  have pre_attach: "truthy (map_option conv_id (lookupOrCreate failing_attach_env (targetAuthorUuid heart) (collab message_world))) = Some ''conv-alice'' \<and>
   findMessage failing_attach_env (targetTimestamp heart) ''conv-alice'' (collab message_world) = Some alice_message \<and>
   resolveTargetConversation failing_attach_env (getConversation failing_attach_env (conversationId placeholder) (collab message_world))
     alice_message ''conv-alice'' (targetTimestamp heart) (collab message_world) = Some (ex_conversation ''group-1'')"
    by (simp add: model_defs example_defs more_defs)
  have hyp_attach: "findMessage failing_attach_env (targetTimestamp heart) ''conv-alice'' (snd (whileQueued failing_attach_env (ex_conversation ''group-1'') (reactions message_world, collab message_world))) = Some alice_message \<and>
   \<not> isStory failing_attach_env alice_message \<and>
   fst (handleReaction failing_attach_env alice_message heart (snd (whileQueued failing_attach_env (ex_conversation ''group-1'') (reactions message_world, collab message_world)))) = Some (Error ''attach failed'')"
    by (simp add: model_defs example_defs more_defs)
  have kept_attach: "fst (whileQueued failing_attach_env (ex_conversation ''group-1'') (reactions message_world, collab message_world)) = [heart, thumb]"
    by (simp add: example_defs more_defs)
  note thm_attach = onReaction_apply_failure [where env = failing_attach_env and r = heart and g = placeholder
      and w = message_world and tid = "''conv-alice''" and check = alice_message and conv = "ex_conversation ''group-1''"]
  have res_attach: "fst (onReaction failing_attach_env heart placeholder message_world) = Resolved"
    using thm_attach by blast
  have concl_attach: "last (trace (snd (onReaction failing_attach_env heart placeholder message_world))) = LogError ''Reactions.onReaction error:'' (Error ''attach failed'') \<and>
   reactions (snd (onReaction failing_attach_env heart placeholder message_world)) = [heart, thumb]"
    using thm_attach pre_attach hyp_attach kept_attach by simp
  have pre_attach_story: "truthy (map_option conv_id (lookupOrCreate failing_attach_env (targetAuthorUuid heart) (collab story_world))) = Some ''conv-alice'' \<and>
   findMessage failing_attach_env (targetTimestamp heart) ''conv-alice'' (collab story_world) = Some alice_story \<and>
   resolveTargetConversation failing_attach_env (getConversation failing_attach_env (conversationId placeholder) (collab story_world))
     alice_story ''conv-alice'' (targetTimestamp heart) (collab story_world) = Some (ex_conversation ''conv-bob'')"
    by (simp add: model_defs example_defs more_defs)
  have hyp_attach_story: "findMessage failing_attach_env (targetTimestamp heart) ''conv-alice'' (snd (whileQueued failing_attach_env (ex_conversation ''conv-bob'') (reactions story_world, collab story_world))) = Some alice_story \<and>
   isStory failing_attach_env alice_story \<and> getCheckedUuid failing_attach_env (snd (whileQueued failing_attach_env (ex_conversation ''conv-bob'') (reactions story_world, collab story_world))) = Inr ''me'' \<and>
   fst (saveMessage failing_attach_env
      (placeholder\<lparr> expireTimer := conv_expireTimer (ex_conversation ''conv-bob''), storyId := Some (msg_id alice_story),
        storyReaction := Some \<lparr> sr_emoji = emoji heart, sr_targetAuthorUuid = targetAuthorUuid heart,
                                sr_targetTimestamp = targetTimestamp heart \<rparr> \<rparr>)
      ''me'' True (snd (whileQueued failing_attach_env (ex_conversation ''conv-bob'') (reactions story_world, collab story_world)))) = None \<and>
   hydrateStoryContext failing_attach_env
      (placeholder\<lparr> expireTimer := conv_expireTimer (ex_conversation ''conv-bob''), storyId := Some (msg_id alice_story),
        storyReaction := Some \<lparr> sr_emoji = emoji heart, sr_targetAuthorUuid = targetAuthorUuid heart,
                                sr_targetTimestamp = targetTimestamp heart \<rparr> \<rparr>)
      alice_story (snd (whileQueued failing_attach_env (ex_conversation ''conv-bob'') (reactions story_world, collab story_world))) =
     Inr (placeholder\<lparr> expireTimer := conv_expireTimer (ex_conversation ''conv-bob''), storyId := Some (msg_id alice_story),
        storyReaction := Some \<lparr> sr_emoji = emoji heart, sr_targetAuthorUuid = targetAuthorUuid heart,
                                sr_targetTimestamp = targetTimestamp heart \<rparr> \<rparr>) \<and>
   fst (handleReaction failing_attach_env alice_story heart
      (addSingleMessage failing_attach_env (ex_conversation ''conv-bob'')
         (placeholder\<lparr> expireTimer := conv_expireTimer (ex_conversation ''conv-bob''), storyId := Some (msg_id alice_story),
        storyReaction := Some \<lparr> sr_emoji = emoji heart, sr_targetAuthorUuid = targetAuthorUuid heart,
                                sr_targetTimestamp = targetTimestamp heart \<rparr> \<rparr>)
         (snd (saveMessage failing_attach_env
            (placeholder\<lparr> expireTimer := conv_expireTimer (ex_conversation ''conv-bob''), storyId := Some (msg_id alice_story),
        storyReaction := Some \<lparr> sr_emoji = emoji heart, sr_targetAuthorUuid = targetAuthorUuid heart,
                                sr_targetTimestamp = targetTimestamp heart \<rparr> \<rparr>)
            ''me'' True (snd (whileQueued failing_attach_env (ex_conversation ''conv-bob'') (reactions story_world, collab story_world))))))) = Some (Error ''attach failed'')"
    by (simp add: model_defs example_defs more_defs)
  have kept_attach_story: "fst (whileQueued failing_attach_env (ex_conversation ''conv-bob'') (reactions story_world, collab story_world)) = [heart, thumb]"
    by (simp add: example_defs more_defs)
  note thm_attach_story = onReaction_apply_failure [where env = failing_attach_env and r = heart and g = placeholder
      and w = story_world and tid = "''conv-alice''" and check = alice_story and conv = "ex_conversation ''conv-bob''"]
  have res_attach_story: "fst (onReaction failing_attach_env heart placeholder story_world) = Resolved"
    using thm_attach_story by blast
  have concl_attach_story: "last (trace (snd (onReaction failing_attach_env heart placeholder story_world))) = LogError ''Reactions.onReaction error:'' (Error ''attach failed'') \<and>
   reactions (snd (onReaction failing_attach_env heart placeholder story_world)) = [heart, thumb]"
    using thm_attach_story pre_attach_story hyp_attach_story kept_attach_story by simp
  show ?thesis
    using res_vanish pre_vanish hyp_vanish concl_vanish res_nouuid pre_nouuid hyp_nouuid concl_nouuid res_store pre_store hyp_store concl_store res_hydrate pre_hydrate hyp_hydrate concl_hydrate res_attach pre_attach hyp_attach concl_attach res_attach_story pre_attach_story hyp_attach_story concl_attach_story
    by blast
qed

text \<open>
  C8 as stated fails: after a failed save, and after a message that vanished while the job
  was queued, the reaction is still in the collection; in the second case nothing is
  logged as an error either.
\<close>

theorem apply_failure_keeps_reaction_counterexample:
  "heart \<in> set (reactions story_world) \<and>
   trace (snd (onReaction failing_store_env heart placeholder story_world)) =
     [LookupOrCreate ''alice'' ''Reactions.onReaction'', ControllerGet ''conv-bob'',
      GetMessagesBySentAt 1000,
      QueueJob (ex_conversation ''conv-bob'') ''Reactions.onReaction'',
      LogInfo ''Handling reaction for'', GetMessagesBySentAt 1000, Register ''s1'', GetCheckedUuid,
      SaveMessage (setStoryReaction heart (ex_conversation ''conv-bob'') alice_story placeholder)
        ''me'' True,
      HydrateStoryContext ''gen1'' ''s1'',
      LogError ''Reactions.onReaction error:'' (Error ''write failed'')] \<and>
   heart \<in> set (reactions (snd (onReaction failing_store_env heart placeholder story_world))) \<and>
   heart \<in> set (reactions message_world) \<and>
   trace (snd (onReaction vanishing_env heart placeholder message_world)) =
     [LookupOrCreate ''alice'' ''Reactions.onReaction'', ControllerGet ''conv-bob'',
      GetMessagesBySentAt 1000, GetConversationForTargetMessage ''conv-alice'' 1000,
      QueueJob (ex_conversation ''group-1'') ''Reactions.onReaction'',
      LogInfo ''Handling reaction for'', GetMessagesBySentAt 1000] \<and>
   heart \<in> set (reactions (snd (onReaction vanishing_env heart placeholder message_world)))"
  by (simp add: model_defs example_defs more_defs)

end
